theory Spec2Isabelle
  imports Main
begin

section \<open>Error taxonomy and envelopes (app/api/errors)\<close>

text \<open>
  JavaScript values as far as the error utilities look at them. \<open>JUndefined\<close> is the
  value of a property that is absent; a property holding it is dropped by
  \<^verbatim>\<open>JSON.stringify\<close>, so on the wire "undefined" and "absent" coincide.
\<close>

datatype jsval =
    JUndefined
  | JNull
  | JBool bool
  | JNum int
  | JStr string
  | JArr "jsval list"
  | JObj "(string \<times> jsval) list"

text \<open>JavaScript truthiness, as used by \<^verbatim>\<open>||\<close>, \<^verbatim>\<open>!\<close> and \<^verbatim>\<open>if\<close>.\<close>

fun truthy :: "jsval \<Rightarrow> bool" where
  "truthy JUndefined = False"
| "truthy JNull = False"
| "truthy (JBool b) = b"
| "truthy (JNum n) = (n \<noteq> 0)"
| "truthy (JStr s) = (s \<noteq> [])"
| "truthy (JArr vs) = True"
| "truthy (JObj kvs) = True"

text \<open>
  \<^verbatim>\<open>v?.k\<close>: undefined when \<open>v\<close> is null or undefined, the property of an object,
  and undefined for a primitive (which has no own property of a user-chosen name).
\<close>

fun optional_prop :: "jsval \<Rightarrow> string \<Rightarrow> jsval" where
  "optional_prop (JObj kvs) k = (case map_of kvs k of Some v \<Rightarrow> v | None \<Rightarrow> JUndefined)"
| "optional_prop v k = JUndefined"

text \<open>\<^verbatim>\<open>a || undefined\<close>\<close>

definition or_undefined :: "jsval \<Rightarrow> jsval" where
  "or_undefined v = (if truthy v then v else JUndefined)"

text \<open>The classes of the hierarchy under \<^verbatim>\<open>BaseAppError\<close>; the class decides which
  \<^verbatim>\<open>toJSON\<close> runs.\<close>

datatype err_class = BaseAppErrorC | ValidationErrorC | AuthErrorC | ExternalServiceErrorC | WorkflowStepErrorC

record app_error =
  err_class :: err_class
  code :: string
  message :: string
  httpStatus :: int
  details :: jsval
  retryable :: "bool option"
  docs :: "string option"

text \<open>The options object of the \<^verbatim>\<open>BaseAppError\<close> constructor.\<close>

record err_options =
  opt_details :: jsval
  opt_retryable :: "bool option"
  opt_docs :: "string option"

definition no_options :: err_options where
  "no_options = \<lparr>opt_details = JUndefined, opt_retryable = None, opt_docs = None\<rparr>"

text \<open>\<^verbatim>\<open>new BaseAppError(code, message, httpStatus = 500, options = {})\<close>, with the class of
  the object being built.\<close>

definition BaseAppError :: "err_class \<Rightarrow> string \<Rightarrow> string \<Rightarrow> int option \<Rightarrow> err_options \<Rightarrow> app_error" where
  "BaseAppError c cd msg st opts =
     \<lparr>err_class = c, code = cd, message = msg,
      httpStatus = (case st of None \<Rightarrow> 500 | Some s \<Rightarrow> s),
      details = opt_details opts, retryable = opt_retryable opts, docs = opt_docs opts\<rparr>"

definition ValidationError :: "string \<Rightarrow> jsval \<Rightarrow> app_error" where
  "ValidationError msg det =
     BaseAppError ValidationErrorC ''VALIDATION_ERROR'' msg (Some 400) (no_options\<lparr>opt_details := det\<rparr>)"

definition AuthError :: "string \<Rightarrow> jsval \<Rightarrow> app_error" where
  "AuthError msg det =
     BaseAppError AuthErrorC ''AUTH_ERROR'' msg (Some 401) (no_options\<lparr>opt_details := det\<rparr>)"

text \<open>\<^verbatim>\<open>httpStatus = 502\<close> and \<^verbatim>\<open>retryable = true\<close> are parameter defaults: they apply when
  the argument is omitted (\<open>None\<close>).\<close>

definition ExternalServiceError :: "string \<Rightarrow> int option \<Rightarrow> jsval \<Rightarrow> bool option \<Rightarrow> app_error" where
  "ExternalServiceError msg st det rt =
     BaseAppError ExternalServiceErrorC ''EXTERNAL_SERVICE_ERROR'' msg
       (Some (case st of None \<Rightarrow> 502 | Some s \<Rightarrow> s))
       (no_options\<lparr>opt_details := det, opt_retryable := Some (case rt of None \<Rightarrow> True | Some r \<Rightarrow> r)\<rparr>)"

text \<open>The first parameter, \<open>step\<close>, is not passed on to \<^verbatim>\<open>super\<close> and not stored.\<close>

definition WorkflowStepError :: "string \<Rightarrow> string \<Rightarrow> jsval \<Rightarrow> bool option \<Rightarrow> app_error" where
  "WorkflowStepError step msg det rt =
     BaseAppError WorkflowStepErrorC ''WORKFLOW_STEP_ERROR'' msg (Some 500)
       (no_options\<lparr>opt_details := det, opt_retryable := Some (case rt of None \<Rightarrow> False | Some r \<Rightarrow> r)\<rparr>)"

text \<open>The interface \<^verbatim>\<open>ErrorJSON\<close>. A field that the object literal does not mention is
  \<open>JUndefined\<close> or \<open>None\<close>.\<close>

record error_json =
  ej_code :: string
  ej_message :: string
  ej_details :: jsval
  ej_retryable :: "bool option"
  ej_docs :: "string option"
  ej_step :: jsval

definition base_toJSON :: "app_error \<Rightarrow> error_json" where
  "base_toJSON e =
     \<lparr>ej_code = code e, ej_message = message e, ej_details = details e,
      ej_retryable = retryable e, ej_docs = docs e, ej_step = JUndefined\<rparr>"

text \<open>Dynamic dispatch of \<^verbatim>\<open>toJSON\<close>: \<^verbatim>\<open>WorkflowStepError\<close> overrides it and adds
  \<^verbatim>\<open>step: this.details?.step || undefined\<close>.\<close>

definition toJSON :: "app_error \<Rightarrow> error_json" where
  "toJSON e =
     (if err_class e = WorkflowStepErrorC
      then (base_toJSON e)\<lparr>ej_step := or_undefined (optional_prop (details e) ''step'')\<rparr>
      else base_toJSON e)"

text \<open>
  What a \<^verbatim>\<open>throw\<close> can carry: an instance of the \<^verbatim>\<open>BaseAppError\<close> hierarchy, another
  \<^verbatim>\<open>Error\<close> instance (with its message), or any value that is not an \<^verbatim>\<open>Error\<close>
  (with its \<^verbatim>\<open>message\<close> property when it has one that is a string).
\<close>

datatype thrown =
    AppErr app_error
  | PlainErr string
  | ThrownValue "string option"

text \<open>\<^verbatim>\<open>e?.message\<close>\<close>

fun message_of :: "thrown \<Rightarrow> string option" where
  "message_of (AppErr e) = Some (message e)"
| "message_of (PlainErr m) = Some m"
| "message_of (ThrownValue m) = m"

text \<open>The result envelope: \<^verbatim>\<open>{success: true, data, meta}\<close> or
  \<^verbatim>\<open>{success: false, error}\<close> (with \<^verbatim>\<open>meta\<close> only where \<^verbatim>\<open>mergeEnvelope\<close> adds it).\<close>

datatype ('d, 'm) envelope =
    Success 'd 'm
  | Failure error_json "'m option"

fun success :: "('d, 'm) envelope \<Rightarrow> bool" where
  "success (Success d m) = True"
| "success (Failure e m) = False"

definition successEnvelope :: "'d \<Rightarrow> 'm \<Rightarrow> ('d, 'm) envelope" where
  "successEnvelope d m = Success d m"

fun errorEnvelope :: "thrown \<Rightarrow> ('d, 'm) envelope" where
  "errorEnvelope (AppErr e) = Failure (toJSON e) None"
| "errorEnvelope (PlainErr m) =
     Failure \<lparr>ej_code = ''UNEXPECTED_ERROR'', ej_message = m, ej_details = JUndefined,
              ej_retryable = None, ej_docs = None, ej_step = JUndefined\<rparr> None"
| "errorEnvelope (ThrownValue m) =
     Failure \<lparr>ej_code = ''UNKNOWN'', ej_message = ''Unknown error'', ej_details = JUndefined,
              ej_retryable = None, ej_docs = None, ej_step = JUndefined\<rparr> None"

text \<open>The \<^verbatim>\<open>error\<close> member of an envelope (\<^verbatim>\<open>errorEnvelope(e).error\<close>).\<close>

fun error_of :: "('d, 'm) envelope \<Rightarrow> error_json option" where
  "error_of (Success d m) = None"
| "error_of (Failure e m) = Some e"

text \<open>
  \<^verbatim>\<open>mergeEnvelope\<close> flattens an envelope whose data is itself an envelope, that is, has a
  \<^verbatim>\<open>success\<close> property. \<open>nested\<close> reads the data that way: \<open>None\<close> when the data has no
  such property. An inner success contributes \<^verbatim>\<open>data.data ?? data\<close> (\<open>inner_data\<close>).
\<close>

definition mergeEnvelope ::
  "('d \<Rightarrow> ('d, 'm) envelope option) \<Rightarrow> ('d, 'm) envelope \<Rightarrow> ('d, 'm) envelope" where
  "mergeEnvelope nested env =
     (case env of
        Success d m \<Rightarrow>
          (case nested d of
             None \<Rightarrow> env
           | Some (Success inner_data _) \<Rightarrow> Success inner_data m
           | Some (Failure e _) \<Rightarrow> Failure e (Some m))
      | Failure e m \<Rightarrow> env)"

section \<open>Retry controller\<close>

text \<open>ASCII lower case: the \<^verbatim>\<open>i\<close> flag of the regular expression, whose alternatives are
  ASCII letters and spaces only.\<close>

definition to_lower :: "char \<Rightarrow> char" where
  "to_lower c =
     (let n = (of_char c :: nat) in if 65 \<le> n \<and> n \<le> 90 then char_of (n + 32) else c)"

fun starts_with :: "string \<Rightarrow> string \<Rightarrow> bool" where
  "starts_with s [] = True"
| "starts_with [] (p # ps) = False"
| "starts_with (c # cs) (p # ps) = (c = p \<and> starts_with cs ps)"

fun includes_str :: "string \<Rightarrow> string \<Rightarrow> bool" where
  "includes_str [] p = (p = [])"
| "includes_str (c # cs) p = (starts_with (c # cs) p \<or> includes_str cs p)"

definition overload_patterns :: "string list" where
  "overload_patterns =
     [''model is overloaded'', ''rate limit'', ''temporarily unavailable'', ''please try again later'']"

definition isOverloadedError :: "string option \<Rightarrow> bool" where
  "isOverloadedError msg =
     (case msg of
        None \<Rightarrow> False
      | Some m \<Rightarrow>
          if m = [] then False
          else list_ex (includes_str (map to_lower m)) overload_patterns)"

text \<open>
  Observable effects, in the order they happen: the memory retrieval with its query, the
  \<^verbatim>\<open>fetch\<close> of the HTTP handler with its bearer key and input, a
  reasoning call (\<^verbatim>\<open>langbase.agent.run\<close>) with the call site that issues it, its model,
  its provider key, its instructions and its input turns, a wait of \<^verbatim>\<open>setTimeout\<close>,
  the two console calls and \<^verbatim>\<open>workflow.end()\<close>. The six call sites are the six closures
  \<^verbatim>\<open>runModel\<close>, \<^verbatim>\<open>summarize\<close>, \<^verbatim>\<open>runPred\<close>, \<^verbatim>\<open>runRec\<close>, \<^verbatim>\<open>runAlerts\<close> and \<^verbatim>\<open>runConv\<close>.
  The instructions of a call site are a template literal: a text fixed per site with
  values interpolated. The event carries the interpolated values, in the order of the
  template (\<open>None\<close> is a value that is null or undefined); the fixed text is left out.
\<close>

datatype call_site = RunModel | Summarize | RunPred | RunRec | RunAlerts | RunConv

text \<open>A tool call requested by the model: \<^verbatim>\<open>{id, function: {name, arguments}}\<close>.\<close>

record tool_call =
  tc_id :: string
  tc_name :: string
  tc_arguments :: string

text \<open>Conversation turns: user and system turns with their content, the assistant turn
  taken from a response (content and tool calls), and a tool turn
  \<^verbatim>\<open>{name, tool_call_id, role: 'tool', content}\<close>.\<close>

datatype chat_message =
    UserMsg string
  | SystemMsg string
  | AssistantMsg "string option" "tool_call list"
  | ToolMsg string string string

datatype event =
    MemoriesRetrieve string
  | Fetch string string
  | AgentRun call_site string "string option" "string option list" "chat_message list"
  | Sleep int
  | ConsoleWarn
  | ConsoleError
  | WorkflowEnd

text \<open>The options of \<^verbatim>\<open>withRetries\<close>. JavaScript numbers are modelled as integers, which is
  exact for integral options while the products stay below \<open>2^53\<close>.\<close>

record retry_options =
  retries :: int
  delayMs :: int
  factor :: int

definition default_options :: retry_options where
  "default_options = \<lparr>retries = 3, delayMs = 500, factor = 2\<rparr>"

text \<open>
  \<^verbatim>\<open>withRetries(fn, options)\<close>. The thunk \<open>fn\<close> is impure: \<open>fn i\<close> is what its invocation
  number \<open>i\<close> (from 0) returns or throws, with the effects of that invocation. The loop
  carries \<open>attempt\<close> and the effects so far. \<^verbatim>\<open>lastErr\<close> is never assigned, so the
  \<^verbatim>\<open>throw lastErr\<close> after the loop throws \<^verbatim>\<open>undefined\<close>.
\<close>

function withRetries_loop ::
  "retry_options \<Rightarrow> (nat \<Rightarrow> (thrown + 'a) \<times> event list) \<Rightarrow> nat \<Rightarrow> event list
     \<Rightarrow> (thrown + 'a) \<times> event list" where
  "withRetries_loop opts fn attempt tr =
     (if int attempt \<le> retries opts then
        (case fn attempt of
           (Inr v, evs) \<Rightarrow> (Inr v, tr @ evs)
         | (Inl e, evs) \<Rightarrow>
             (let msg = (case message_of e of None \<Rightarrow> [] | Some m \<Rightarrow> m) in
              if int attempt = retries opts \<or> \<not> isOverloadedError (Some msg) then (Inl e, tr @ evs)
              else
                (let wait = delayMs opts * factor opts ^ attempt
                 in withRetries_loop opts fn (attempt + 1) (tr @ evs @ [Sleep wait]))))
      else (Inl (ThrownValue None), tr))"
  by pat_completeness auto
termination
  by (relation "measure (\<lambda>(opts, fn, attempt, tr). nat (retries opts + 1 - int attempt))") auto

definition withRetries ::
  "retry_options \<Rightarrow> (nat \<Rightarrow> (thrown + 'a) \<times> event list) \<Rightarrow> (thrown + 'a) \<times> event list" where
  "withRetries opts fn = withRetries_loop opts fn 0 []"


section \<open>The workflow (agent.ts)\<close>

text \<open>The three variables of \<^verbatim>\<open>process.env\<close> that the code reads; \<open>None\<close> is unset.\<close>

record proc_env =
  LANGBASE_API_KEY :: "string option"
  OPENAI_API_KEY :: "string option"
  GOOGLE_API_KEY :: "string option"

text \<open>A response of \<^verbatim>\<open>langbase.agent.run\<close> as far as the code reads it:
  \<^verbatim>\<open>choices[0].message.content\<close>, \<^verbatim>\<open>choices[0].message.tool_calls\<close> (empty when absent)
  and \<^verbatim>\<open>output\<close>. \<open>None\<close> is null or undefined.\<close>

record agent_response =
  message_content :: "string option"
  message_tool_calls :: "tool_call list"
  resp_output :: "string option"

record memory =
  mem_text :: string

text \<open>
  Everything outside the repository that the workflow calls, as an arbitrary but fixed
  oracle. \<open>memories_retrieve q\<close> is what \<^verbatim>\<open>langbase.memories.retrieve\<close> returns or throws
  for the query \<open>q\<close>. \<open>agent_run site model i\<close> is what the reasoning call number \<open>i\<close>
  (from 0) of call site \<open>site\<close> with model \<open>model\<close> returns or throws; within one
  invocation these three identify a call, so the oracle may answer every call
  differently. \<open>json_parse args\<close> is the error that \<^verbatim>\<open>JSON.parse(args)\<close> or the property
  reads on its result throw, if any; \<open>tool_result name args\<close> is the string a simulated
  tool returns; \<open>now\<close> is \<^verbatim>\<open>new Date().toISOString()\<close>.
  \<^verbatim>\<open>workflow.step({id, run})\<close> is taken to run \<^verbatim>\<open>run\<close> once and to pass on what it
  returns or throws; \<^verbatim>\<open>new Langbase\<close>, \<^verbatim>\<open>langbase.workflow()\<close>, the console calls and
  \<^verbatim>\<open>workflow.end()\<close> are taken to return.
\<close>

record world =
  memories_retrieve :: "string \<Rightarrow> thrown + memory list"
  agent_run :: "call_site \<Rightarrow> string \<Rightarrow> nat \<Rightarrow> thrown + agent_response"
  json_parse :: "string \<Rightarrow> thrown option"
  tool_result :: "string \<Rightarrow> string \<Rightarrow> string"
  now :: string

text \<open>\<^verbatim>\<open>interface StepResult\<close>; the only \<^verbatim>\<open>output\<close> ever stored is
  \<^verbatim>\<open>contextData.length\<close>.\<close>

datatype step_status = Ok | Skipped | Error

record step_result =
  sr_id :: string
  sr_status :: step_status
  sr_output :: "nat option"
  sr_error :: "error_json option"

definition step_ok :: "string \<Rightarrow> nat option \<Rightarrow> step_result" where
  "step_ok i out = \<lparr>sr_id = i, sr_status = Ok, sr_output = out, sr_error = None\<rparr>"

definition step_error :: "string \<Rightarrow> thrown \<Rightarrow> step_result" where
  "step_error i e =
     \<lparr>sr_id = i, sr_status = Error, sr_output = None,
      sr_error = error_of (errorEnvelope e :: (unit, unit) envelope)\<rparr>"

definition step_skipped :: "string \<Rightarrow> string \<Rightarrow> step_result" where
  "step_skipped i msg =
     \<lparr>sr_id = i, sr_status = Skipped, sr_output = None,
      sr_error = Some \<lparr>ej_code = ''DEPENDENCY_FAILED'', ej_message = msg, ej_details = JUndefined,
                       ej_retryable = None, ej_docs = None, ej_step = JUndefined\<rparr>\<rparr>"

text \<open>Truthiness of a value that is a string, null or undefined.\<close>

definition truthy_str :: "string option \<Rightarrow> bool" where
  "truthy_str v = (case v of None \<Rightarrow> False | Some s \<Rightarrow> s \<noteq> [])"

definition openai_model :: string where
  "openai_model = ''openai:gpt-5-mini-2025-08-07''"

definition google_model :: string where
  "google_model = ''google:gemini-2.5-flash''"

text \<open>\<^verbatim>\<open>process.env.OPENAI_API_KEY && !process.env.OPENAI_API_KEY.startsWith('AIzaSy')\<close>,
  and the three values every step derives from it.\<close>

definition hasOpenAIKey :: "proc_env \<Rightarrow> bool" where
  "hasOpenAIKey pe =
     (case OPENAI_API_KEY pe of
        None \<Rightarrow> False
      | Some k \<Rightarrow> k \<noteq> [] \<and> \<not> starts_with k ''AIzaSy'')"

definition model :: "proc_env \<Rightarrow> string" where
  "model pe = (if hasOpenAIKey pe then openai_model else google_model)"

definition apiKey :: "proc_env \<Rightarrow> string option" where
  "apiKey pe = (if hasOpenAIKey pe then OPENAI_API_KEY pe else GOOGLE_API_KEY pe)"

definition fallback :: "proc_env \<Rightarrow> string" where
  "fallback pe = (if hasOpenAIKey pe then google_model else openai_model)"

text \<open>One reasoning call: the closures \<^verbatim>\<open>runModel\<close>, \<^verbatim>\<open>summarize\<close>, \<^verbatim>\<open>runPred\<close>,
  \<^verbatim>\<open>runRec\<close>, \<^verbatim>\<open>runAlerts\<close> and \<^verbatim>\<open>runConv\<close> applied to a target model. The call is the
  number \<open>i\<close> of its site and model; \<open>instr\<close> are the values interpolated into its
  instructions and \<open>msgs\<close> is its \<^verbatim>\<open>input\<close>.\<close>

definition run_agent ::
  "world \<Rightarrow> proc_env \<Rightarrow> call_site \<Rightarrow> string option list \<Rightarrow> chat_message list \<Rightarrow> string \<Rightarrow> nat
     \<Rightarrow> (thrown + agent_response) \<times> event list" where
  "run_agent w pe site instr msgs targetModel i =
     (agent_run w site targetModel i, [AgentRun site targetModel (apiKey pe) instr msgs])"

text \<open>The system turn a call site pushes on its conversation after a fallback call has
  returned: \<^verbatim>\<open>runModel\<close> and \<^verbatim>\<open>summarize\<close> push one, the other four sites push
  nothing.\<close>

fun fallback_note :: "call_site \<Rightarrow> string \<Rightarrow> chat_message list" where
  "fallback_note RunModel fb = [SystemMsg (''Model overloaded. Fell back to '' @ fb @ ''.'')]"
| "fallback_note Summarize fb = [SystemMsg (''Summary fallback model used: '' @ fb)]"
| "fallback_note site fb = []"

text \<open>
  The pattern every call site repeats (lines 187-196, 240-249, 289-297, 332-340, 376-384
  and 423-431):
  \<^verbatim>\<open>try { r = await withRetries(() => run(model)) }
  catch (e) { if (isOverloadedError(e?.message)) { r = await run(fallback); <note> } else throw e }\<close>
  The result is what the site ends with, the conversation after it and the effects.
\<close>

definition call_with_fallback ::
  "world \<Rightarrow> proc_env \<Rightarrow> call_site \<Rightarrow> string option list \<Rightarrow> chat_message list
     \<Rightarrow> (thrown + agent_response) \<times> chat_message list \<times> event list" where
  "call_with_fallback w pe site instr msgs =
     (case withRetries default_options (run_agent w pe site instr msgs (model pe)) of
        (Inr r, tr) \<Rightarrow> (Inr r, msgs, tr)
      | (Inl e, tr) \<Rightarrow>
          if isOverloadedError (message_of e) then
            (case run_agent w pe site instr msgs (fallback pe) 0 of
               (Inr r, evs) \<Rightarrow> (Inr r, msgs @ fallback_note site (fallback pe), tr @ evs)
             | (Inl e', evs) \<Rightarrow> (Inl e', msgs, tr @ evs))
          else (Inl e, msgs, tr))"

text \<open>The \<^verbatim>\<open>switch\<close> on the tool name: the three simulated tools parse their arguments
  first, any other name gives the string "Tool not found".\<close>

definition invoke_tool :: "world \<Rightarrow> string \<Rightarrow> string \<Rightarrow> thrown + string" where
  "invoke_tool w name args =
     (if name = ''fetch_weather_aqi_data'' \<or> name = ''analyze_hospital_data''
         \<or> name = ''analyze_health_trends''
      then (case json_parse w args of Some e \<Rightarrow> Inl e | None \<Rightarrow> Inr (tool_result w name args))
      else Inr ''Tool not found'')"

text \<open>\<^verbatim>\<open>for (const toolCall of toolCalls)\<close>: each result is pushed as a tool turn; a throw
  leaves the loop.\<close>

fun run_tool_calls ::
  "world \<Rightarrow> tool_call list \<Rightarrow> chat_message list \<Rightarrow> thrown option \<times> chat_message list" where
  "run_tool_calls w [] msgs = (None, msgs)"
| "run_tool_calls w (tc # tcs) msgs =
     (case invoke_tool w (tc_name tc) (tc_arguments tc) of
        Inl e \<Rightarrow> (Some e, msgs)
      | Inr result \<Rightarrow> run_tool_calls w tcs (msgs @ [ToolMsg (tc_name tc) (tc_id tc) result]))"

text \<open>\<^verbatim>\<open>xs.join("\n")\<close>, and \<^verbatim>\<open>contextData.map((m) => m.text).join("\n")\<close>.\<close>

fun join_lines :: "string list \<Rightarrow> string" where
  "join_lines [] = []"
| "join_lines [x] = x"
| "join_lines (x # y # ys) = x @ [CHR 0x0A] @ join_lines (y # ys)"

definition context_text :: "memory list \<Rightarrow> string" where
  "context_text ms = join_lines (map mem_text ms)"

text \<open>The \<^verbatim>\<open>run\<close> function of the step \<^verbatim>\<open>analyze_realtime_data\<close>: what it returns or
  throws, its \<^verbatim>\<open>inputMessages\<close> at that point and its effects. The instructions of
  \<^verbatim>\<open>runModel\<close> interpolate the text of the memories; those of \<^verbatim>\<open>summarize\<close> are a fixed
  string.\<close>

definition analyze_realtime_data_run ::
  "world \<Rightarrow> proc_env \<Rightarrow> string \<Rightarrow> memory list
     \<Rightarrow> (thrown + string option) \<times> chat_message list \<times> event list" where
  "analyze_realtime_data_run w pe input contextData =
     (let inputMessages =
            [UserMsg (''Analyze current health situation for: '' @ input @
               ''. Use available tools to fetch weather/AQI data, hospital patterns, and health trends.'')]
      in case call_with_fallback w pe RunModel [Some (context_text contextData)] inputMessages of
           (Inl e, msgs, tr) \<Rightarrow> (Inl e, msgs, tr)
         | (Inr response, msgs, tr) \<Rightarrow>
             (let msgs1 = msgs @ [AssistantMsg (message_content response) (message_tool_calls response)];
                  toolCalls = message_tool_calls response
              in if toolCalls \<noteq> [] then
                   (case run_tool_calls w toolCalls msgs1 of
                      (Some e, msgs2) \<Rightarrow> (Inl e, msgs2, tr)
                    | (None, msgs2) \<Rightarrow>
                        (case call_with_fallback w pe Summarize [] msgs2 of
                           (Inl e, msgs3, tr') \<Rightarrow> (Inl e, msgs3, tr @ tr')
                         | (Inr finalResponse, msgs3, tr') \<Rightarrow>
                             (Inr (resp_output finalResponse), msgs3, tr @ tr')))
                 else
                   (Inr (if truthy_str (message_content response) then message_content response
                         else Some ''No data analysis performed''), msgs1, tr)))"

text \<open>The local variables of \<^verbatim>\<open>healEyeWorkflow\<close> inside its \<^verbatim>\<open>try\<close> block, with the
  effects so far.\<close>

record wf_vars =
  stepMeta :: "step_result list"
  trace :: "event list"
  contextData :: "memory list"
  dataAnalysis :: "string option"
  prediction :: "string option"
  recommendations :: "string option"
  publicAlerts :: "string option"
  conversationalResponse :: "string option"

definition initial_vars :: wf_vars where
  "initial_vars =
     \<lparr>stepMeta = [], trace = [], contextData = [], dataAnalysis = None, prediction = None,
      recommendations = None, publicAlerts = None, conversationalResponse = None\<rparr>"

text \<open>Each step below maps the variables to an exception thrown out of the step (to the
  outer \<^verbatim>\<open>catch\<close>), if any, and the variables at that point.\<close>

text \<open>Step 1 (lines 138-159): a failure is recorded and rethrown as a
  \<^verbatim>\<open>WorkflowStepError\<close>.\<close>

definition collect_context_data :: "world \<Rightarrow> string \<Rightarrow> wf_vars \<Rightarrow> thrown option \<times> wf_vars" where
  "collect_context_data w input s =
     (let s1 = s\<lparr>trace := trace s @ [MemoriesRetrieve input]\<rparr>
      in case memories_retrieve w input of
           Inr memories \<Rightarrow>
             (None, s1\<lparr>contextData := memories,
                       stepMeta := stepMeta s1 @ [step_ok ''collect_context_data'' (Some (length memories))]\<rparr>)
         | Inl e \<Rightarrow>
             (Some (AppErr (WorkflowStepError ''collect_context_data'' ''Failed to retrieve context data''
                      (JObj [(''step'', JStr ''collect_context_data''),
                             (''original'', case message_of e of None \<Rightarrow> JUndefined | Some m \<Rightarrow> JStr m)])
                      None)),
              s1\<lparr>stepMeta := stepMeta s1 @ [step_error ''collect_context_data'' e]\<rparr>))"

text \<open>Step 2 (lines 162-261): a failure is recorded and not rethrown.\<close>

definition analyze_realtime_data :: "world \<Rightarrow> proc_env \<Rightarrow> string \<Rightarrow> wf_vars \<Rightarrow> thrown option \<times> wf_vars" where
  "analyze_realtime_data w pe input s =
     (case analyze_realtime_data_run w pe input (contextData s) of
        (Inr v, msgs, tr) \<Rightarrow>
          (None, s\<lparr>trace := trace s @ tr, dataAnalysis := v,
                    stepMeta := stepMeta s @ [step_ok ''analyze_realtime_data'' None]\<rparr>)
      | (Inl e, msgs, tr) \<Rightarrow>
          (None, s\<lparr>trace := trace s @ tr,
                    stepMeta := stepMeta s @ [step_error ''analyze_realtime_data'' e]\<rparr>))"

text \<open>Steps 3 to 5 (lines 264-391): gated on the previous output being truthy; the step
  call is not inside a \<^verbatim>\<open>try\<close> of its own, so a throw leaves the step unrecorded.
  The instructions interpolate the data analysis and the text of the memories (step 3),
  the prediction (step 4), the prediction and the recommendations (step 5).\<close>

definition generate_predictions :: "world \<Rightarrow> proc_env \<Rightarrow> string \<Rightarrow> wf_vars \<Rightarrow> thrown option \<times> wf_vars" where
  "generate_predictions w pe input s =
     (if truthy_str (dataAnalysis s) then
        (case call_with_fallback w pe RunPred
                [dataAnalysis s, Some (context_text (contextData s))]
                [UserMsg (''Generate detailed health surge predictions for: '' @ input)] of
           (Inr predResp, msgs, tr) \<Rightarrow>
             (None, s\<lparr>trace := trace s @ tr, prediction := resp_output predResp,
                       stepMeta := stepMeta s @ [step_ok ''generate_predictions'' None]\<rparr>)
         | (Inl e, msgs, tr) \<Rightarrow> (Some e, s\<lparr>trace := trace s @ tr\<rparr>))
      else
        (None, s\<lparr>stepMeta := stepMeta s @
                    [step_skipped ''generate_predictions'' ''Skipped due to dataAnalysis error'']\<rparr>))"

definition generate_recommendations :: "world \<Rightarrow> proc_env \<Rightarrow> wf_vars \<Rightarrow> thrown option \<times> wf_vars" where
  "generate_recommendations w pe s =
     (if truthy_str (prediction s) then
        (case call_with_fallback w pe RunRec
                [prediction s]
                [UserMsg ''Generate actionable hospital recommendations based on the predictions.''] of
           (Inr recResp, msgs, tr) \<Rightarrow>
             (None, s\<lparr>trace := trace s @ tr, recommendations := resp_output recResp,
                       stepMeta := stepMeta s @ [step_ok ''generate_recommendations'' None]\<rparr>)
         | (Inl e, msgs, tr) \<Rightarrow> (Some e, s\<lparr>trace := trace s @ tr\<rparr>))
      else
        (None, s\<lparr>stepMeta := stepMeta s @
                    [step_skipped ''generate_recommendations'' ''Skipped due to prediction error'']\<rparr>))"

definition generate_public_alerts :: "world \<Rightarrow> proc_env \<Rightarrow> wf_vars \<Rightarrow> thrown option \<times> wf_vars" where
  "generate_public_alerts w pe s =
     (if truthy_str (recommendations s) then
        (case call_with_fallback w pe RunAlerts
                [prediction s, recommendations s]
                [UserMsg ''Generate public health alerts and preventive guidance.''] of
           (Inr alertResp, msgs, tr) \<Rightarrow>
             (None, s\<lparr>trace := trace s @ tr, publicAlerts := resp_output alertResp,
                       stepMeta := stepMeta s @ [step_ok ''generate_public_alerts'' None]\<rparr>)
         | (Inl e, msgs, tr) \<Rightarrow> (Some e, s\<lparr>trace := trace s @ tr\<rparr>))
      else
        (None, s\<lparr>stepMeta := stepMeta s @
                    [step_skipped ''generate_public_alerts'' ''Skipped due to recommendations error'']\<rparr>))"

text \<open>Step 6 (lines 394-435): not gated, and not inside a \<^verbatim>\<open>try\<close> of its own. Its
  instructions interpolate, under "Available data", the data analysis, the prediction,
  the recommendations and the public alerts as they are at that point.\<close>

definition generate_conversational_response ::
  "world \<Rightarrow> proc_env \<Rightarrow> string \<Rightarrow> wf_vars \<Rightarrow> thrown option \<times> wf_vars" where
  "generate_conversational_response w pe input s =
     (case call_with_fallback w pe RunConv
             [dataAnalysis s, prediction s, recommendations s, publicAlerts s]
             [UserMsg input] of
        (Inr convResp, msgs, tr) \<Rightarrow>
          (None, s\<lparr>trace := trace s @ tr, conversationalResponse := resp_output convResp,
                    stepMeta := stepMeta s @ [step_ok ''generate_conversational_response'' None]\<rparr>)
      | (Inl e, msgs, tr) \<Rightarrow> (Some e, s\<lparr>trace := trace s @ tr\<rparr>))"

text \<open>Sequencing inside the \<^verbatim>\<open>try\<close> block: a throw skips the statements after it.\<close>

definition and_then ::
  "thrown option \<times> wf_vars \<Rightarrow> (wf_vars \<Rightarrow> thrown option \<times> wf_vars) \<Rightarrow> thrown option \<times> wf_vars" where
  "and_then r f = (case r of (Some e, s) \<Rightarrow> (Some e, s) | (None, s) \<Rightarrow> f s)"

definition try_block :: "world \<Rightarrow> proc_env \<Rightarrow> string \<Rightarrow> thrown option \<times> wf_vars" where
  "try_block w pe input =
     and_then (and_then (and_then (and_then (and_then
       (collect_context_data w input initial_vars)
       (analyze_realtime_data w pe input))
       (generate_predictions w pe input))
       (generate_recommendations w pe))
       (generate_public_alerts w pe))
       (generate_conversational_response w pe input)"

text \<open>The data and the meta of the final envelope (lines 438-449).\<close>

record detailed_analysis =
  data_analysis :: "string option"
  predictions :: "string option"
  da_recommendations :: "string option"
  public_alerts :: "string option"

record workflow_data =
  conversational_response :: "string option"
  detailed_analysis :: detailed_analysis
  timestamp :: string
  confidence_level :: string
  system_status :: string

record workflow_meta =
  steps :: "step_result list"

type_synonym workflow_envelope = "(workflow_data, workflow_meta) envelope"

text \<open>How an invocation ends: with a value, or with an exception that leaves it.\<close>

datatype 'a completion = Returned 'a | Threw thrown

definition finalResult :: "world \<Rightarrow> wf_vars \<Rightarrow> workflow_envelope" where
  "finalResult w s =
     successEnvelope
       \<lparr>conversational_response = conversationalResponse s,
        detailed_analysis =
          \<lparr>data_analysis = dataAnalysis s, predictions = prediction s,
           da_recommendations = recommendations s, public_alerts = publicAlerts s\<rparr>,
        timestamp = now w, confidence_level = ''High'', system_status = ''Active''\<rparr>
       \<lparr>steps = stepMeta s\<rparr>"

text \<open>\<^verbatim>\<open>/^user_|^org_/.test(apiKey)\<close>\<close>

definition expected_key_prefix :: "string \<Rightarrow> bool" where
  "expected_key_prefix k = (starts_with k ''user_'' \<or> starts_with k ''org_'')"

text \<open>The \<^verbatim>\<open>console.warn\<close> about a key with an unexpected prefix.\<close>

definition key_warning :: "proc_env \<Rightarrow> event list" where
  "key_warning pe =
     (case LANGBASE_API_KEY pe of
        None \<Rightarrow> []
      | Some k \<Rightarrow> if expected_key_prefix k then [] else [ConsoleWarn])"

text \<open>
  \<^verbatim>\<open>healEyeWorkflow({input, env})\<close>: how the invocation ends, the \<^verbatim>\<open>stepMeta\<close> array at
  that point, and the effects in order. The key check comes before
  \<^verbatim>\<open>langbase.workflow()\<close> and before the \<^verbatim>\<open>try\<close>, so its \<^verbatim>\<open>throw\<close> leaves the function.
  The data object built for the final envelope has no \<^verbatim>\<open>success\<close> property, which is
  what \<^verbatim>\<open>mergeEnvelope\<close> is given to read it by.
\<close>

definition healEyeWorkflow ::
  "world \<Rightarrow> proc_env \<Rightarrow> string \<Rightarrow> workflow_envelope completion \<times> step_result list \<times> event list" where
  "healEyeWorkflow w pe input =
     (if \<not> truthy_str (LANGBASE_API_KEY pe) then
        (Threw (PlainErr ''LANGBASE_API_KEY missing. Set it in .env and restart the process.''), [], [])
      else
        (case try_block w pe input of
           (None, s) \<Rightarrow>
             (Returned (mergeEnvelope (\<lambda>d. None) (finalResult w s)), stepMeta s,
              key_warning pe @ trace s @ [WorkflowEnd])
         | (Some err, s) \<Rightarrow>
             (Returned (errorEnvelope err), stepMeta s,
              key_warning pe @ trace s @ [ConsoleError, WorkflowEnd])))"

text \<open>The three components of an invocation.\<close>

definition completion_of :: "'a \<times> step_result list \<times> event list \<Rightarrow> 'a" where
  "completion_of x = fst x"

definition steps_of :: "'a \<times> step_result list \<times> event list \<Rightarrow> step_result list" where
  "steps_of x = fst (snd x)"

definition trace_of :: "'a \<times> step_result list \<times> event list \<Rightarrow> event list" where
  "trace_of x = snd (snd x)"

section \<open>The HTTP handler (app/api/langbase.ts)\<close>

text \<open>\<^verbatim>\<open>typeof\<close>\<close>

fun typeof :: "jsval \<Rightarrow> string" where
  "typeof JUndefined = ''undefined''"
| "typeof JNull = ''object''"
| "typeof (JBool b) = ''boolean''"
| "typeof (JNum n) = ''number''"
| "typeof (JStr s) = ''string''"
| "typeof (JArr vs) = ''object''"
| "typeof (JObj kvs) = ''object''"

text \<open>A \<^verbatim>\<open>Response\<close>: its status and the envelope serialized in its body (the meta of
  \<^verbatim>\<open>successEnvelope(data)\<close> is the empty object).\<close>

record http_response =
  hr_status :: int
  hr_body :: "(jsval, unit) envelope"

text \<open>
  \<^verbatim>\<open>new Response(body, {status})\<close> with a body that is a string. The constructor throws a
  \<^verbatim>\<open>RangeError\<close> for a status outside 200 to 599 and a \<^verbatim>\<open>TypeError\<close> for a status that
  admits no body (204, 205, 304; 101 is already out of range). \<open>refused\<close> is the error the
  runtime throws for a status; its text depends on the runtime.
\<close>

definition new_Response ::
  "(int \<Rightarrow> thrown) \<Rightarrow> (jsval, unit) envelope \<Rightarrow> int \<Rightarrow> thrown + http_response" where
  "new_Response refused body st =
     (if st < 200 \<or> 599 < st then Inl (refused st)
      else if st = 204 \<or> st = 205 \<or> st = 304 then Inl (refused st)
      else Inr \<lparr>hr_status = st, hr_body = body\<rparr>)"

definition toResponse :: "(int \<Rightarrow> thrown) \<Rightarrow> thrown \<Rightarrow> thrown + http_response" where
  "toResponse refused err =
     (case err of
        AppErr e \<Rightarrow> new_Response refused (errorEnvelope err) (httpStatus e)
      | _ \<Rightarrow> new_Response refused (errorEnvelope err) 500)"

text \<open>What \<^verbatim>\<open>fetch\<close> resolves to, as far as the handler reads it: \<^verbatim>\<open>ok\<close>, \<^verbatim>\<open>status\<close>
  and what \<^verbatim>\<open>json()\<close> returns or throws.\<close>

record fetch_response =
  fr_ok :: bool
  fr_status :: int
  fr_json :: "thrown + jsval"

text \<open>\<^verbatim>\<open>/Invalid User\/Org API key/i.test(errorData.message || "")\<close>, for a message that is a
  string or absent.\<close>

definition invalid_key_message :: "jsval \<Rightarrow> bool" where
  "invalid_key_message errorData =
     (case optional_prop errorData ''message'' of
        JStr m \<Rightarrow> includes_str (map to_lower m) ''invalid user/org api key''
      | _ \<Rightarrow> False)"

text \<open>
  \<^verbatim>\<open>handleAgentRequest\<close>, from the point where the body has been parsed: \<open>input\<close> is the
  \<^verbatim>\<open>input\<close> property of the body, \<open>fetch key input\<close> is what the request to the
  provider resolves to or throws. Every throw inside the \<^verbatim>\<open>try\<close> is caught and answered
  by \<^verbatim>\<open>toResponse\<close>, after a \<^verbatim>\<open>console.error\<close>; a throw of \<^verbatim>\<open>toResponse\<close> itself, in
  the \<^verbatim>\<open>catch\<close> block, leaves the function.
\<close>

definition handleAgentRequest_try ::
  "(int \<Rightarrow> thrown) \<Rightarrow> (string \<Rightarrow> string \<Rightarrow> thrown + fetch_response) \<Rightarrow> proc_env \<Rightarrow> jsval
     \<Rightarrow> (thrown + http_response) \<times> event list" where
  "handleAgentRequest_try refused fetch pe input =
     (case input of
        JStr i \<Rightarrow>
          if i = [] then
            (Inl (AppErr (ValidationError ''Input is required and must be a string''
                    (JObj [(''providedType'', JStr (typeof input))]))), [])
          else if \<not> truthy_str (LANGBASE_API_KEY pe) then
            (Inl (AppErr (AuthError ''LANGBASE_API_KEY missing from environment''
                    (JObj [(''expected'', JStr ''user_... or org_...'')]))), [])
          else
            (let k = (case LANGBASE_API_KEY pe of None \<Rightarrow> [] | Some k \<Rightarrow> k);
                 tr = key_warning pe @ [Fetch k i]
             in case fetch k i of
                  Inl e \<Rightarrow> (Inl e, tr)
                | Inr response \<Rightarrow>
                    if \<not> fr_ok response then
                      (let errorData = (case fr_json response of Inl e \<Rightarrow> JNull | Inr v \<Rightarrow> v)
                       in if fr_status response = 400 \<and> truthy errorData \<and> invalid_key_message errorData
                          then
                            (Inl (AppErr (AuthError ''Langbase rejected the API key''
                               (JObj [(''original'', errorData),
                                      (''troubleshooting'', JArr
                                         [JStr ''Regenerate a new key (user or org) and update .env'',
                                          JStr ''Restart the dev server after changes'',
                                          JStr ''Ensure .env resides in process.cwd() directory when starting server''])]))),
                             tr)
                          else
                            (Inl (AppErr (ExternalServiceError ''Langbase request failed''
                               (Some (fr_status response))
                               (if truthy errorData then errorData
                                else JObj [(''status'', JNum (fr_status response))])
                               None)),
                             tr))
                    else
                      (case fr_json response of
                         Inl e \<Rightarrow> (Inl e, tr)
                       | Inr data \<Rightarrow> (new_Response refused (successEnvelope data ()) 200, tr)))
      | _ \<Rightarrow>
          (Inl (AppErr (ValidationError ''Input is required and must be a string''
                  (JObj [(''providedType'', JStr (typeof input))]))), []))"

definition handleAgentRequest ::
  "(int \<Rightarrow> thrown) \<Rightarrow> (string \<Rightarrow> string \<Rightarrow> thrown + fetch_response) \<Rightarrow> proc_env \<Rightarrow> jsval
     \<Rightarrow> http_response completion \<times> event list" where
  "handleAgentRequest refused fetch pe input =
     (case handleAgentRequest_try refused fetch pe input of
        (Inr response, tr) \<Rightarrow> (Returned response, tr)
      | (Inl error, tr) \<Rightarrow>
          (case toResponse refused error of
             Inr response \<Rightarrow> (Returned response, tr @ [ConsoleError])
           | Inl e \<Rightarrow> (Threw e, tr @ [ConsoleError])))"

section \<open>Observations used in the statements\<close>

text \<open>A failure that \<^verbatim>\<open>withRetries\<close> answers with a retry while attempts remain: a throw
  whose message matches the overload pattern.\<close>

definition retryable_failure :: "thrown + 'a \<Rightarrow> bool" where
  "retryable_failure r = (case r of Inl e \<Rightarrow> isOverloadedError (message_of e) | Inr v \<Rightarrow> False)"

text \<open>The effects of invocations \<open>0\<close> to \<open>k\<close> of \<open>fn\<close>, each but the last followed by
  its backoff wait \<open>delayMs * factor ^ i\<close>.\<close>

definition attempts_trace ::
  "retry_options \<Rightarrow> (nat \<Rightarrow> (thrown + 'a) \<times> event list) \<Rightarrow> nat \<Rightarrow> event list" where
  "attempts_trace opts fn k =
     concat (map (\<lambda>i. snd (fn i) @ [Sleep (delayMs opts * factor opts ^ i)]) [0..<k]) @ snd (fn k)"

text \<open>The waits in a trace, and the reasoning calls of a trace that go to a given model.\<close>

fun waits :: "event list \<Rightarrow> int list" where
  "waits [] = []"
| "waits (Sleep n # evs) = n # waits evs"
| "waits (ev # evs) = waits evs"

fun calls_to :: "string \<Rightarrow> event list \<Rightarrow> nat" where
  "calls_to m [] = 0"
| "calls_to m (AgentRun site m' k instr msgs # evs) = (if m' = m then 1 else 0) + calls_to m evs"
| "calls_to m (ev # evs) = calls_to m evs"

text \<open>Whether an effect is a call to the network: a memory retrieval, a \<^verbatim>\<open>fetch\<close> or a
  reasoning call.\<close>

fun is_network_call :: "event \<Rightarrow> bool" where
  "is_network_call (MemoriesRetrieve q) = True"
| "is_network_call (Fetch k i) = True"
| "is_network_call (AgentRun site m k instr msgs) = True"
| "is_network_call ev = False"

text \<open>What a call site ends with; the instructions and the conversation it is given only
  travel in the events.\<close>

definition site_outcome :: "world \<Rightarrow> proc_env \<Rightarrow> call_site \<Rightarrow> thrown + agent_response" where
  "site_outcome w pe site = fst (call_with_fallback w pe site [] [])"

text \<open>Identifier, status and error code of the recorded steps.\<close>

definition step_summary :: "step_result \<Rightarrow> string \<times> step_status \<times> string option" where
  "step_summary r = (sr_id r, sr_status r, map_option ej_code (sr_error r))"

definition step_ids :: "string list" where
  "step_ids =
     [''collect_context_data'', ''analyze_realtime_data'', ''generate_predictions'',
      ''generate_recommendations'', ''generate_public_alerts'', ''generate_conversational_response'']"

section \<open>Concrete environments and oracles\<close>

definition env_openai :: proc_env where
  "env_openai =
     \<lparr>LANGBASE_API_KEY = Some ''user_key'', OPENAI_API_KEY = Some ''sk-test'', GOOGLE_API_KEY = None\<rparr>"

definition env_no_credential :: proc_env where
  "env_no_credential =
     \<lparr>LANGBASE_API_KEY = None, OPENAI_API_KEY = Some ''sk-test'', GOOGLE_API_KEY = None\<rparr>"

definition ok_response :: agent_response where
  "ok_response =
     \<lparr>message_content = Some ''analysis'', message_tool_calls = [], resp_output = Some ''text''\<rparr>"

definition world_of ::
  "(thrown + memory list) \<Rightarrow> (call_site \<Rightarrow> string \<Rightarrow> nat \<Rightarrow> thrown + agent_response) \<Rightarrow> world" where
  "world_of mems agent =
     \<lparr>memories_retrieve = (\<lambda>q. mems), agent_run = agent, json_parse = (\<lambda>a. None),
      tool_result = (\<lambda>n a. ''{}''), now = ''2025-01-01T00:00:00.000Z''\<rparr>"

text \<open>Every call succeeds.\<close>

definition world_all_ok :: world where
  "world_all_ok = world_of (Inr [\<lparr>mem_text = ''record''\<rparr>]) (\<lambda>site m i. Inr ok_response)"

text \<open>The memory retrieval fails.\<close>

definition world_context_fails :: world where
  "world_context_fails = world_of (Inl (PlainErr ''network down'')) (\<lambda>site m i. Inr ok_response)"

text \<open>Only the reasoning call of the analysis step fails.\<close>

definition world_analysis_fails :: world where
  "world_analysis_fails =
     world_of (Inr [\<lparr>mem_text = ''record''\<rparr>])
       (\<lambda>site m i. if site = RunModel then Inl (PlainErr ''boom'') else Inr ok_response)"

text \<open>The primary model is overloaded at every attempt, the other model answers.\<close>

definition world_overloaded :: world where
  "world_overloaded =
     world_of (Inr [\<lparr>mem_text = ''record''\<rparr>])
       (\<lambda>site m i. if m = openai_model then Inl (PlainErr ''Rate limit exceeded'') else Inr ok_response)"

text \<open>An operation that fails twice with an overload message and then succeeds.\<close>

definition fails_twice :: "nat \<Rightarrow> (thrown + nat) \<times> event list" where
  "fails_twice i = (if i < 2 then Inl (PlainErr ''Model is overloaded'') else Inr 7, [])"
section \<open>The error envelope\<close>

lemma errorEnvelope_Failure: "\<exists>ej. errorEnvelope t = Failure ej None"
  by (cases t) simp_all

text \<open>
  C8, as the code has it. \<^verbatim>\<open>errorEnvelope\<close> answers every thrown value with a failure
  envelope \<^verbatim>\<open>{success: false, error: {code, message, ...}}\<close>. The code it assigns has three
  cases: an instance of the \<^verbatim>\<open>BaseAppError\<close> hierarchy keeps its own code and message
  (for the four typed errors: \<^verbatim>\<open>VALIDATION_ERROR\<close>, \<^verbatim>\<open>AUTH_ERROR\<close>,
  \<^verbatim>\<open>EXTERNAL_SERVICE_ERROR\<close>, \<^verbatim>\<open>WORKFLOW_STEP_ERROR\<close>); any other \<^verbatim>\<open>Error\<close> instance gets
  \<^verbatim>\<open>UNEXPECTED_ERROR\<close> with its message; a thrown value that is not an \<^verbatim>\<open>Error\<close> gets the
  code \<^verbatim>\<open>UNKNOWN\<close> and the message "Unknown error".
\<close>

theorem errorEnvelope_codes:
  "\<not> success (errorEnvelope t :: ('d, 'm) envelope)
   \<and> (\<exists>ej. (errorEnvelope t :: ('d, 'm) envelope) = Failure ej None
        \<and> ej_code ej = (case t of AppErr e \<Rightarrow> code e
                         | PlainErr m \<Rightarrow> ''UNEXPECTED_ERROR''
                         | ThrownValue m \<Rightarrow> ''UNKNOWN'')
        \<and> ej_message ej = (case t of AppErr e \<Rightarrow> message e
                            | PlainErr m \<Rightarrow> m
                            | ThrownValue m \<Rightarrow> ''Unknown error''))
   \<and> code (ValidationError msg det) = ''VALIDATION_ERROR''
   \<and> code (AuthError msg det) = ''AUTH_ERROR''
   \<and> code (ExternalServiceError msg st det rt) = ''EXTERNAL_SERVICE_ERROR''
   \<and> code (WorkflowStepError step msg det rt) = ''WORKFLOW_STEP_ERROR''"
  by (cases t)
     (simp_all add: toJSON_def base_toJSON_def ValidationError_def AuthError_def
        ExternalServiceError_def WorkflowStepError_def BaseAppError_def)

theorem errorEnvelope_codes_witness:
  "\<not> success (errorEnvelope (PlainErr ''boom'') :: (unit, unit) envelope)
   \<and> map_option ej_code (error_of (errorEnvelope (PlainErr ''boom'') :: (unit, unit) envelope))
       = Some ''UNEXPECTED_ERROR''
   \<and> map_option ej_code (error_of (errorEnvelope (AppErr (AuthError ''no key'' JUndefined))
        :: (unit, unit) envelope)) = Some ''AUTH_ERROR''"
proof -
  have a: "\<exists>ej. (errorEnvelope (PlainErr ''boom'') :: (unit, unit) envelope) = Failure ej None
             \<and> ej_code ej = ''UNEXPECTED_ERROR''"
    using errorEnvelope_codes [of "PlainErr ''boom''"] by simp
  have b: "\<exists>ej. (errorEnvelope (AppErr (AuthError ''no key'' JUndefined)) :: (unit, unit) envelope)
                   = Failure ej None
             \<and> ej_code ej = code (AuthError ''no key'' JUndefined)"
    using errorEnvelope_codes [of "AppErr (AuthError ''no key'' JUndefined)"]
    by simp
  have c: "code (AuthError ''no key'' JUndefined) = ''AUTH_ERROR''"
    using errorEnvelope_codes [of "PlainErr []" "''no key''" JUndefined]
    by simp
  from a b c show ?thesis by auto
qed

text \<open>
  C8 as stated fails: a thrown value that is not an \<^verbatim>\<open>Error\<close> instance (here
  \<^verbatim>\<open>undefined\<close>, which is what \<^verbatim>\<open>withRetries\<close> throws after its loop) is outside the typed
  taxonomy, and its code is \<^verbatim>\<open>UNKNOWN\<close>, not \<^verbatim>\<open>UNEXPECTED_ERROR\<close>.
\<close>

theorem errorEnvelope_unknown_counterexample:
  "map_option ej_code (error_of (errorEnvelope (ThrownValue None) :: (unit, unit) envelope))
     = Some ''UNKNOWN''
   \<and> ''UNKNOWN'' \<noteq> ''UNEXPECTED_ERROR''"
  by simp

text \<open>
  C10, as the code has it. The serialized form of a \<^verbatim>\<open>WorkflowStepError\<close> has \<^verbatim>\<open>step\<close>
  equal to \<^verbatim>\<open>details.step\<close> when that value is truthy, and undefined, hence absent from
  the serialization, otherwise: when \<^verbatim>\<open>details\<close> is missing or has no \<^verbatim>\<open>step\<close>, and
  also when \<^verbatim>\<open>details.step\<close> is set to a falsy value such as the empty string. The
  error envelope carries exactly that form. The first argument of the constructor has
  no influence on it.
\<close>

theorem WorkflowStepError_serialized_step:
  "(err_class e = WorkflowStepErrorC \<longrightarrow>
      ej_step (toJSON e) =
        (if truthy (optional_prop (details e) ''step'') then optional_prop (details e) ''step''
         else JUndefined)
      \<and> (errorEnvelope (AppErr e) :: ('d, 'm) envelope) = Failure (toJSON e) None)
   \<and> err_class (WorkflowStepError step msg det rt) = WorkflowStepErrorC
   \<and> details (WorkflowStepError step msg det rt) = det
   \<and> toJSON (WorkflowStepError step msg det rt) = toJSON (WorkflowStepError step' msg det rt)
   \<and> (map_of kvs ''step'' = Some v \<and> truthy v \<longrightarrow>
        ej_step (toJSON (WorkflowStepError step msg (JObj kvs) rt)) = v)
   \<and> (map_of kvs ''step'' = Some v \<and> \<not> truthy v \<longrightarrow>
        ej_step (toJSON (WorkflowStepError step msg (JObj kvs) rt)) = JUndefined)
   \<and> (map_of kvs ''step'' = None \<longrightarrow>
        ej_step (toJSON (WorkflowStepError step msg (JObj kvs) rt)) = JUndefined)
   \<and> ej_step (toJSON (WorkflowStepError step msg JUndefined rt)) = JUndefined"
  by (simp add: toJSON_def base_toJSON_def or_undefined_def WorkflowStepError_def BaseAppError_def
      no_options_def)

theorem WorkflowStepError_serialized_step_witness:
  "err_class (WorkflowStepError ''a'' ''failed'' (JObj [(''step'', JStr ''collect_context_data'')]) None)
     = WorkflowStepErrorC
   \<and> ej_step (toJSON (WorkflowStepError ''a'' ''failed''
        (JObj [(''step'', JStr ''collect_context_data'')]) None)) = JStr ''collect_context_data''
   \<and> err_class (WorkflowStepError ''a'' ''failed'' JUndefined None) = WorkflowStepErrorC
   \<and> ej_step (toJSON (WorkflowStepError ''a'' ''failed'' JUndefined None)) = JUndefined"
proof -
  let ?e = "WorkflowStepError ''a'' ''failed'' (JObj [(''step'', JStr ''collect_context_data'')]) None"
  let ?f = "WorkflowStepError ''a'' ''failed'' JUndefined None"
  have c1: "err_class ?e = WorkflowStepErrorC" and d1: "details ?e = JObj [(''step'', JStr ''collect_context_data'')]"
    using WorkflowStepError_serialized_step
      [of ?e "''a''" "''failed''" "JObj [(''step'', JStr ''collect_context_data'')]" None "''a''"]
    by simp_all
  have c2: "err_class ?f = WorkflowStepErrorC" and d2: "details ?f = JUndefined"
    using WorkflowStepError_serialized_step [of ?f "''a''" "''failed''" JUndefined None "''a''"]
    by simp_all
  have s1: "ej_step (toJSON ?e) = (if truthy (optional_prop (details ?e) ''step'')
              then optional_prop (details ?e) ''step'' else JUndefined)"
    using WorkflowStepError_serialized_step [of ?e "''a''" "''failed''" JUndefined None "''a''"] c1 by blast
  have s2: "ej_step (toJSON ?f) = (if truthy (optional_prop (details ?f) ''step'')
              then optional_prop (details ?f) ''step'' else JUndefined)"
    using WorkflowStepError_serialized_step [of ?f "''a''" "''failed''" JUndefined None "''a''"] c2 by blast
  show ?thesis using c1 c2 s1 s2 by (simp add: d1 d2)
qed

text \<open>
  C10 as stated fails: with the details \<^verbatim>\<open>{step: ''}\<close> the property \<^verbatim>\<open>details.step\<close> is
  set, to the empty string, and the serialized error has no \<^verbatim>\<open>step\<close>.
\<close>

theorem WorkflowStepError_empty_step_counterexample:
  "optional_prop
     (details (WorkflowStepError ''collect_context_data'' ''failed'' (JObj [(''step'', JStr [])]) None))
     ''step'' = JStr []
   \<and> ej_step (toJSON (WorkflowStepError ''collect_context_data'' ''failed''
         (JObj [(''step'', JStr [])]) None)) = JUndefined"
  by (simp add: toJSON_def base_toJSON_def or_undefined_def WorkflowStepError_def BaseAppError_def
      no_options_def)

section \<open>The retry controller\<close>

lemma isOverloadedError_empty: "isOverloadedError (Some []) = False"
  by (simp add: isOverloadedError_def)

lemma isOverloadedError_message_or_empty:
  "isOverloadedError (Some (case m of None \<Rightarrow> [] | Some x \<Rightarrow> x)) = isOverloadedError m"
  by (cases m) (simp_all add: isOverloadedError_def)

lemma overloaded_example: "isOverloadedError (Some ''Model is overloaded'')"
  by code_simp

lemma overloaded_rate_limit: "isOverloadedError (Some ''Rate limit exceeded'')"
  by code_simp

lemma not_overloaded_boom: "\<not> isOverloadedError (Some ''boom'')"
  by code_simp

lemma withRetries_loop_stop:
  assumes "int k \<le> retries opts"
    and "\<forall>i. a \<le> i \<and> i < k \<longrightarrow> retryable_failure (fst (fn i))"
    and "int k = retries opts \<or> \<not> retryable_failure (fst (fn k))"
    and "a \<le> k"
  shows "withRetries_loop opts fn a tr =
           (fst (fn k),
            tr @ concat (map (\<lambda>i. snd (fn i) @ [Sleep (delayMs opts * factor opts ^ i)]) [a..<k])
               @ snd (fn k))"
  using assms
proof (induction "k - a" arbitrary: a tr)
  case 0
  then have ak: "a = k" by simp
  obtain r evs where fk: "fn k = (r, evs)" by (cases "fn k")
  show ?case
  proof (cases r)
    case (Inl e)
    with 0 fk ak show ?thesis
      by (subst withRetries_loop.simps)
         (auto simp: retryable_failure_def isOverloadedError_message_or_empty)
  next
    case (Inr v)
    with 0 fk ak show ?thesis
      by (subst withRetries_loop.simps) simp
  qed
next
  case (Suc n)
  then have lt: "a < k" by simp
  obtain r evs where fa: "fn a = (r, evs)" by (cases "fn a")
  from Suc.prems(2) lt fa have "retryable_failure r" by force
  then obtain e where r: "r = Inl e" and ov: "isOverloadedError (message_of e)"
    by (cases r) (auto simp: retryable_failure_def)
  have ne: "int a \<noteq> retries opts" "int a \<le> retries opts"
    using lt Suc.prems(1) by simp_all
  have IH: "withRetries_loop opts fn (Suc a) (tr @ evs @ [Sleep (delayMs opts * factor opts ^ a)]) =
      (fst (fn k),
       (tr @ evs @ [Sleep (delayMs opts * factor opts ^ a)])
         @ concat (map (\<lambda>i. snd (fn i) @ [Sleep (delayMs opts * factor opts ^ i)]) [Suc a..<k])
         @ snd (fn k))"
    using Suc.hyps(2) Suc.prems lt by (intro Suc.hyps(1)) auto
  have upt: "[a..<k] = a # [Suc a..<k]"
    using lt by (simp add: upt_conv_Cons)
  show ?case
    using fa r ov ne IH
    by (subst withRetries_loop.simps)
       (simp add: isOverloadedError_message_or_empty upt)
qed

lemma upt_0_2: "[0..<2] = [0, 1::nat]"
  by (simp add: numeral_2_eq_2)

lemma upt_0_3: "[0..<3] = [0, 1, 2::nat]"
  by (simp add: numeral_3_eq_3)

lemma withRetries_stop:
  assumes "int k \<le> retries opts"
    and "\<forall>i<k. retryable_failure (fst (fn i))"
    and "int k = retries opts \<or> \<not> retryable_failure (fst (fn k))"
  shows "withRetries opts fn = (fst (fn k), attempts_trace opts fn k)"
  using withRetries_loop_stop [of k opts 0 fn "[]"] assms
  by (simp add: withRetries_def attempts_trace_def)

lemma stopping_attempt_exists:
  assumes "0 \<le> retries opts"
  shows "\<exists>k. int k \<le> retries opts \<and> (\<forall>i<k. retryable_failure (fst (fn i)))
            \<and> (int k = retries opts \<or> \<not> retryable_failure (fst (fn k)))"
proof -
  define P where "P i \<longleftrightarrow> int i = retries opts \<or> \<not> retryable_failure (fst (fn i))" for i
  have ex: "P (nat (retries opts))" using assms by (simp add: P_def)
  define k where "k = (LEAST i. P i)"
  have Pk: "P k" unfolding k_def using ex by (rule LeastI)
  have le: "k \<le> nat (retries opts)" unfolding k_def using ex by (rule Least_le)
  have below: "\<not> P i" if "i < k" for i
    using that not_less_Least unfolding k_def by blast
  have "int k \<le> retries opts" using le assms by linarith
  moreover have "\<forall>i<k. retryable_failure (fst (fn i))"
    using below by (auto simp: P_def)
  ultimately show ?thesis using Pk unfolding P_def by blast
qed

lemma withRetries_bounded:
  assumes "0 \<le> retries opts"
  shows "\<exists>k. int k \<le> retries opts \<and> withRetries opts fn = (fst (fn k), attempts_trace opts fn k)"
  using stopping_attempt_exists [OF assms, of fn] withRetries_stop [of _ opts fn] by blast

lemma waits_default_bound:
  assumes "k \<le> 3"
  shows "sum_list (waits (attempts_trace default_options (\<lambda>i. (op i, [])) k)) \<le> 3500"
proof -
  from assms have "k = 0 \<or> k = 1 \<or> k = 2 \<or> k = 3" by arith
  then show ?thesis
    by (auto simp: attempts_trace_def default_options_def upt_0_2 upt_0_3)
qed


lemma withRetries_fails_twice_then_succeeds:
  assumes "retryable_failure (op 0)" "retryable_failure (op 1)" "op 2 = Inr v"
  shows "withRetries default_options (\<lambda>i. (op i, [])) = (Inr v, [Sleep 500, Sleep 1000])"
proof -
  let ?fn = "\<lambda>i. (op i, []::event list)"
  have a: "int 2 \<le> retries default_options" by (simp add: default_options_def)
  have b: "\<forall>i<2. retryable_failure (fst (?fn i))"
  proof (intro allI impI)
    fix i :: nat assume "i < 2"
    then have "i = 0 \<or> i = 1" by arith
    then show "retryable_failure (fst (?fn i))" using assms by auto
  qed
  have c: "int 2 = retries default_options \<or> \<not> retryable_failure (fst (?fn 2))"
    using assms(3) by (simp add: retryable_failure_def)
  have "withRetries default_options ?fn = (fst (?fn 2), attempts_trace default_options ?fn 2)"
    using a b c by (rule withRetries_stop)
  then show ?thesis
    using assms(3) by (simp add: attempts_trace_def default_options_def upt_0_2)
qed

lemma withRetries_default_total_wait:
  "sum_list (waits (snd (withRetries default_options (\<lambda>i. (op i, []))))) \<le> 3500"
proof -
  let ?fn = "\<lambda>i. (op i, []::event list)"
  have "0 \<le> retries default_options" by (simp add: default_options_def)
  from withRetries_bounded [OF this, of ?fn]
  obtain j where j: "int j \<le> retries default_options"
    and eq: "withRetries default_options ?fn = (fst (?fn j), attempts_trace default_options ?fn j)"
    by blast
  from j have "j \<le> 3" by (simp add: default_options_def)
  then have "sum_list (waits (attempts_trace default_options ?fn j)) \<le> 3500"
    by (rule waits_default_bound)
  then show ?thesis by (simp only: eq snd_conv)
qed

text \<open>
  C3. \<^verbatim>\<open>withRetries\<close> invokes the operation; after a failure it retries exactly when
  the message matches the overload pattern and the attempt counter, counted from 0, is
  below \<open>retries\<close>, after a wait of \<open>delayMs * factor ^ attempt\<close>; any other failure is
  rethrown at once. So if invocations \<open>0\<close> to \<open>k - 1\<close> fail with an overload message and
  \<open>k\<close> is the first attempt that either equals \<open>retries\<close> or does not fail that way,
  the result is that of invocation \<open>k\<close> and the effects are invocations \<open>0\<close> to \<open>k\<close>, each
  but the last followed by its wait. Every run, for \<open>retries \<ge> 0\<close>, is of that shape with
  some \<open>k \<le> retries\<close>: at most \<open>retries + 1\<close> attempts. With the defaults, an operation
  that fails twice with an overload message and then succeeds gives its value after waits
  of 500 and 1000, and the waits of a run never sum to more than 3500.
\<close>

theorem withRetries_exponential_backoff:
  "(int k \<le> retries opts \<and> (\<forall>i<k. retryable_failure (fst (fn i)))
      \<and> (int k = retries opts \<or> \<not> retryable_failure (fst (fn k)))
      \<longrightarrow> withRetries opts fn = (fst (fn k), attempts_trace opts fn k))
   \<and> (0 \<le> retries opts
      \<longrightarrow> (\<exists>j. int j \<le> retries opts \<and> withRetries opts fn = (fst (fn j), attempts_trace opts fn j)))
   \<and> (retryable_failure (op 0) \<and> retryable_failure (op 1) \<and> op 2 = Inr v
      \<longrightarrow> withRetries default_options (\<lambda>i. (op i, [])) = (Inr v, [Sleep 500, Sleep 1000]))
   \<and> sum_list (waits (snd (withRetries default_options (\<lambda>i. (op i, []))))) \<le> 3500"
proof (intro conjI impI)
  assume h: "int k \<le> retries opts \<and> (\<forall>i<k. retryable_failure (fst (fn i)))
      \<and> (int k = retries opts \<or> \<not> retryable_failure (fst (fn k)))"
  show "withRetries opts fn = (fst (fn k), attempts_trace opts fn k)"
    by (rule withRetries_stop) (use h in simp_all)
next
  assume "0 \<le> retries opts"
  then show "\<exists>j. int j \<le> retries opts \<and> withRetries opts fn = (fst (fn j), attempts_trace opts fn j)"
    by (rule withRetries_bounded)
next
  assume a: "retryable_failure (op 0) \<and> retryable_failure (op 1) \<and> op 2 = Inr v"
  show "withRetries default_options (\<lambda>i. (op i, [])) = (Inr v, [Sleep 500, Sleep 1000])"
    by (rule withRetries_fails_twice_then_succeeds) (use a in simp_all)
next
  show "sum_list (waits (snd (withRetries default_options (\<lambda>i. (op i, []))))) \<le> 3500"
    by (rule withRetries_default_total_wait)
qed

theorem withRetries_exponential_backoff_witness:
  "int 2 \<le> retries default_options
   \<and> retryable_failure (fst (fails_twice 0)) \<and> retryable_failure (fst (fails_twice 1))
   \<and> \<not> retryable_failure (fst (fails_twice 2))
   \<and> withRetries default_options fails_twice = (Inr 7, [Sleep 500, Sleep 1000])"
proof -
  have h1: "int 2 \<le> retries default_options" by (simp add: default_options_def)
  have f0: "retryable_failure (fst (fails_twice 0))"
    by (simp add: fails_twice_def retryable_failure_def overloaded_example)
  have f1: "retryable_failure (fst (fails_twice 1))"
    by (simp add: fails_twice_def retryable_failure_def overloaded_example)
  have f2: "\<not> retryable_failure (fst (fails_twice 2))"
    by (simp add: fails_twice_def retryable_failure_def)
  have h2: "\<forall>i<2. retryable_failure (fst (fails_twice i))"
  proof (intro allI impI)
    fix i :: nat assume "i < 2"
    then have "i = 0 \<or> i = 1" by arith
    then show "retryable_failure (fst (fails_twice i))" using f0 f1 by auto
  qed
  have tr: "attempts_trace default_options fails_twice 2 = [Sleep 500, Sleep 1000]"
    by (simp add: attempts_trace_def default_options_def fails_twice_def upt_0_2)
  have imp: "int 2 \<le> retries default_options \<and> (\<forall>i<2. retryable_failure (fst (fails_twice i)))
      \<and> (int 2 = retries default_options \<or> \<not> retryable_failure (fst (fails_twice 2)))
      \<longrightarrow> withRetries default_options fails_twice
            = (fst (fails_twice 2), attempts_trace default_options fails_twice 2)"
    using withRetries_exponential_backoff [of 2 default_options fails_twice] by (rule conjunct1)
  have "withRetries default_options fails_twice
          = (fst (fails_twice 2), attempts_trace default_options fails_twice 2)"
    using imp h1 h2 f2 by (elim impE) (intro conjI disjI2, assumption+)
  then show ?thesis using h1 f0 f1 f2 tr by (simp add: fails_twice_def)
qed

section \<open>Call sites and the fallback\<close>

lemma models_differ: "model pe \<noteq> fallback pe"
  by (simp add: model_def fallback_def openai_model_def google_model_def)

lemma default_retries_nonneg: "0 \<le> retries default_options"
  by (simp add: default_options_def)

lemma attempts_trace_no_end:
  assumes "\<And>i. WorkflowEnd \<notin> set (snd (fn i))"
  shows "WorkflowEnd \<notin> set (attempts_trace opts fn k)"
  using assms by (auto simp: attempts_trace_def)

lemma attempts_trace_first:
  "\<exists>rest. attempts_trace opts fn k = snd (fn 0) @ rest"
proof (cases k)
  case 0
  then show ?thesis by (simp add: attempts_trace_def)
next
  case (Suc n)
  then have "[0..<k] = 0 # [Suc 0..<k]" by (simp add: upt_conv_Cons)
  then show ?thesis by (simp add: attempts_trace_def)
qed

lemma withRetries_outcome_cong:
  assumes "0 \<le> retries opts" and "\<And>i. fst (fn i) = fst (fn' i)"
  shows "fst (withRetries opts fn) = fst (withRetries opts fn')"
proof -
  from stopping_attempt_exists [OF assms(1), of fn]
  obtain k where k: "int k \<le> retries opts" "\<forall>i<k. retryable_failure (fst (fn i))"
    "int k = retries opts \<or> \<not> retryable_failure (fst (fn k))" by blast
  have 1: "withRetries opts fn = (fst (fn k), attempts_trace opts fn k)"
    using k by (rule withRetries_stop)
  have 2: "withRetries opts fn' = (fst (fn' k), attempts_trace opts fn' k)"
    by (rule withRetries_stop) (use k assms(2) in simp_all)
  show ?thesis by (simp add: 1 2 assms(2))
qed

lemma withRetries_run_agent:
  "\<exists>rest. withRetries default_options (run_agent w pe site instr msgs m)
     = (fst (withRetries default_options (run_agent w pe site [] [] m)),
        AgentRun site m (apiKey pe) instr msgs # rest) \<and> WorkflowEnd \<notin> set rest"
proof -
  let ?fn = "run_agent w pe site instr msgs m"
  from withRetries_bounded [OF default_retries_nonneg, of ?fn]
  obtain j where eq: "withRetries default_options ?fn = (fst (?fn j), attempts_trace default_options ?fn j)"
    by blast
  have ne: "WorkflowEnd \<notin> set (attempts_trace default_options ?fn j)"
    by (rule attempts_trace_no_end) (simp add: run_agent_def)
  obtain rest where rest: "attempts_trace default_options ?fn j = snd (?fn 0) @ rest"
    using attempts_trace_first by blast
  have cong: "fst (withRetries default_options ?fn) = fst (withRetries default_options (run_agent w pe site [] [] m))"
    by (rule withRetries_outcome_cong [OF default_retries_nonneg]) (simp add: run_agent_def)
  have "withRetries default_options ?fn = (fst (withRetries default_options (run_agent w pe site [] [] m)),
        AgentRun site m (apiKey pe) instr msgs # rest)"
    using eq rest cong by (simp add: run_agent_def)
  moreover have "WorkflowEnd \<notin> set rest" using ne rest by simp
  ultimately show ?thesis by blast
qed

lemma call_with_fallback_normal:
  "\<exists>msgs' rest. call_with_fallback w pe site instr msgs
       = (site_outcome w pe site, msgs', AgentRun site (model pe) (apiKey pe) instr msgs # rest)
     \<and> WorkflowEnd \<notin> set rest"
proof -
  obtain rest where a: "withRetries default_options (run_agent w pe site instr msgs (model pe))
     = (fst (withRetries default_options (run_agent w pe site [] [] (model pe))),
        AgentRun site (model pe) (apiKey pe) instr msgs # rest)" and ne: "WorkflowEnd \<notin> set rest"
    using withRetries_run_agent by blast
  obtain r0 t0 where b: "withRetries default_options (run_agent w pe site [] [] (model pe)) = (r0, t0)"
    by (cases "withRetries default_options (run_agent w pe site [] [] (model pe))")
  show ?thesis
    using ne by (cases r0; cases "agent_run w site (fallback pe) 0")
      (simp_all add: call_with_fallback_def site_outcome_def a b run_agent_def)
qed

text \<open>
  C4, as the code has it. At every call site, when the call to the primary model has
  failed with an overload message at each of the four attempts that the default retry
  budget allows, exactly one call goes to the other model, after the waits of 500, 1000
  and 2000, with the same instructions and input, and is not retried; what that call
  returns or throws is what the call site ends with, so a failure of the fallback call
  propagates as it is. A system turn
  recording the fallback is appended to the conversation only at the two call sites of
  the analysis step (\<^verbatim>\<open>runModel\<close> and \<^verbatim>\<open>summarize\<close>), and only when the fallback call
  has returned; the other four call sites leave the conversation as it was.
\<close>

theorem fallback_once:
  assumes "\<forall>i\<le>3. retryable_failure (agent_run w site (model pe) i)"
  shows "call_with_fallback w pe site instr msgs =
           (agent_run w site (fallback pe) 0,
            msgs @ (case agent_run w site (fallback pe) 0 of
                      Inr r \<Rightarrow> fallback_note site (fallback pe)
                    | Inl e \<Rightarrow> []),
            [AgentRun site (model pe) (apiKey pe) instr msgs, Sleep 500,
             AgentRun site (model pe) (apiKey pe) instr msgs, Sleep 1000,
             AgentRun site (model pe) (apiKey pe) instr msgs, Sleep 2000,
             AgentRun site (model pe) (apiKey pe) instr msgs,
             AgentRun site (fallback pe) (apiKey pe) instr msgs])
         \<and> calls_to (fallback pe) (snd (snd (call_with_fallback w pe site instr msgs))) = 1
         \<and> fallback_note RunModel (fallback pe)
             = [SystemMsg (''Model overloaded. Fell back to '' @ fallback pe @ ''.'')]
         \<and> fallback_note Summarize (fallback pe)
             = [SystemMsg (''Summary fallback model used: '' @ fallback pe)]
         \<and> (site \<noteq> RunModel \<and> site \<noteq> Summarize \<longrightarrow> fallback_note site (fallback pe) = [])"
proof -
  let ?fn = "run_agent w pe site instr msgs (model pe)"
  have a: "int 3 \<le> retries default_options" by (simp add: default_options_def)
  have b: "\<forall>i<3. retryable_failure (fst (?fn i))"
    using assms by (simp add: run_agent_def)
  have c: "int 3 = retries default_options \<or> \<not> retryable_failure (fst (?fn 3))"
    by (simp add: default_options_def)
  have wr: "withRetries default_options ?fn = (fst (?fn 3), attempts_trace default_options ?fn 3)"
    using a b c by (rule withRetries_stop)
  have "retryable_failure (agent_run w site (model pe) 3)" using assms by simp
  then obtain e where e: "agent_run w site (model pe) 3 = Inl e"
    and ov: "isOverloadedError (message_of e)"
    by (cases "agent_run w site (model pe) 3") (auto simp: retryable_failure_def)
  have tr: "attempts_trace default_options ?fn 3 =
      [AgentRun site (model pe) (apiKey pe) instr msgs, Sleep 500,
       AgentRun site (model pe) (apiKey pe) instr msgs, Sleep 1000,
       AgentRun site (model pe) (apiKey pe) instr msgs, Sleep 2000,
       AgentRun site (model pe) (apiKey pe) instr msgs]"
    by (simp add: attempts_trace_def default_options_def upt_0_3 run_agent_def)
  have main: "call_with_fallback w pe site instr msgs =
           (agent_run w site (fallback pe) 0,
            msgs @ (case agent_run w site (fallback pe) 0 of
                      Inr r \<Rightarrow> fallback_note site (fallback pe)
                    | Inl e \<Rightarrow> []),
            [AgentRun site (model pe) (apiKey pe) instr msgs, Sleep 500,
             AgentRun site (model pe) (apiKey pe) instr msgs, Sleep 1000,
             AgentRun site (model pe) (apiKey pe) instr msgs, Sleep 2000,
             AgentRun site (model pe) (apiKey pe) instr msgs,
             AgentRun site (fallback pe) (apiKey pe) instr msgs])"
    by (cases "agent_run w site (fallback pe) 0")
       (simp_all add: call_with_fallback_def wr tr e ov run_agent_def)
  have cnt: "calls_to (fallback pe) (snd (snd (call_with_fallback w pe site instr msgs))) = 1"
    using models_differ [of pe] by (simp add: main)
  have others: "site \<noteq> RunModel \<and> site \<noteq> Summarize \<longrightarrow> fallback_note site (fallback pe) = []"
    by (cases site) simp_all
  show ?thesis using main cnt others by simp
qed

lemma env_openai_key: "truthy_str (LANGBASE_API_KEY env_openai)"
  by (simp add: env_openai_def truthy_str_def)

lemma env_openai_model: "model env_openai = openai_model" "fallback env_openai = google_model"
  "apiKey env_openai = Some ''sk-test''"
  by (simp_all add: model_def fallback_def apiKey_def hasOpenAIKey_def env_openai_def)

lemma world_overloaded_primary:
  "retryable_failure (agent_run world_overloaded site (model env_openai) i)"
  by (simp add: world_overloaded_def world_of_def env_openai_model retryable_failure_def
      overloaded_rate_limit)

theorem fallback_once_witness:
  "retryable_failure (agent_run world_overloaded RunModel (model env_openai) 0)
   \<and> retryable_failure (agent_run world_overloaded RunModel (model env_openai) 1)
   \<and> retryable_failure (agent_run world_overloaded RunModel (model env_openai) 2)
   \<and> retryable_failure (agent_run world_overloaded RunModel (model env_openai) 3)
   \<and> call_with_fallback world_overloaded env_openai RunModel [Some ''record''] [UserMsg ''q''] =
       (Inr ok_response,
        [UserMsg ''q'', SystemMsg ''Model overloaded. Fell back to google:gemini-2.5-flash.''],
        [AgentRun RunModel ''openai:gpt-5-mini-2025-08-07'' (Some ''sk-test'') [Some ''record''] [UserMsg ''q''], Sleep 500,
         AgentRun RunModel ''openai:gpt-5-mini-2025-08-07'' (Some ''sk-test'') [Some ''record''] [UserMsg ''q''], Sleep 1000,
         AgentRun RunModel ''openai:gpt-5-mini-2025-08-07'' (Some ''sk-test'') [Some ''record''] [UserMsg ''q''], Sleep 2000,
         AgentRun RunModel ''openai:gpt-5-mini-2025-08-07'' (Some ''sk-test'') [Some ''record''] [UserMsg ''q''],
         AgentRun RunModel ''google:gemini-2.5-flash'' (Some ''sk-test'') [Some ''record''] [UserMsg ''q'']])"
proof -
  have h: "\<forall>i\<le>3. retryable_failure (agent_run world_overloaded RunModel (model env_openai) i)"
    using world_overloaded_primary by blast
  have fb: "agent_run world_overloaded RunModel (fallback env_openai) 0 = Inr ok_response"
    by (simp add: world_overloaded_def world_of_def env_openai_model openai_model_def google_model_def)
  have "call_with_fallback world_overloaded env_openai RunModel [Some ''record''] [UserMsg ''q''] =
           (agent_run world_overloaded RunModel (fallback env_openai) 0,
            [UserMsg ''q''] @ (case agent_run world_overloaded RunModel (fallback env_openai) 0 of
                      Inr r \<Rightarrow> fallback_note RunModel (fallback env_openai)
                    | Inl e \<Rightarrow> []),
            [AgentRun RunModel (model env_openai) (apiKey env_openai) [Some ''record''] [UserMsg ''q''], Sleep 500,
             AgentRun RunModel (model env_openai) (apiKey env_openai) [Some ''record''] [UserMsg ''q''], Sleep 1000,
             AgentRun RunModel (model env_openai) (apiKey env_openai) [Some ''record''] [UserMsg ''q''], Sleep 2000,
             AgentRun RunModel (model env_openai) (apiKey env_openai) [Some ''record''] [UserMsg ''q''],
             AgentRun RunModel (fallback env_openai) (apiKey env_openai) [Some ''record''] [UserMsg ''q'']])"
    using fallback_once [OF h, of "[Some ''record'']" "[UserMsg ''q'']"] by (rule conjunct1)
  then have "call_with_fallback world_overloaded env_openai RunModel [Some ''record''] [UserMsg ''q''] =
           (Inr ok_response,
            [UserMsg ''q''] @ fallback_note RunModel (fallback env_openai),
            [AgentRun RunModel (model env_openai) (apiKey env_openai) [Some ''record''] [UserMsg ''q''], Sleep 500,
             AgentRun RunModel (model env_openai) (apiKey env_openai) [Some ''record''] [UserMsg ''q''], Sleep 1000,
             AgentRun RunModel (model env_openai) (apiKey env_openai) [Some ''record''] [UserMsg ''q''], Sleep 2000,
             AgentRun RunModel (model env_openai) (apiKey env_openai) [Some ''record''] [UserMsg ''q''],
             AgentRun RunModel (fallback env_openai) (apiKey env_openai) [Some ''record''] [UserMsg ''q'']])"
    by (simp only: fb sum.case)
  then show ?thesis
    using world_overloaded_primary [of RunModel]
    by (simp add: env_openai_model openai_model_def google_model_def)
qed

text \<open>
  C4 as stated fails at the call site of the prediction step: the primary model is
  overloaded at all four attempts, the one fallback call returns, and the conversation
  is unchanged: no system turn records the fallback.
\<close>

theorem fallback_note_counterexample:
  "call_with_fallback world_overloaded env_openai RunPred [Some ''analysis'', Some ''record''] [UserMsg ''q''] =
       (Inr ok_response,
        [UserMsg ''q''],
        [AgentRun RunPred ''openai:gpt-5-mini-2025-08-07'' (Some ''sk-test'') [Some ''analysis'', Some ''record''] [UserMsg ''q''], Sleep 500,
         AgentRun RunPred ''openai:gpt-5-mini-2025-08-07'' (Some ''sk-test'') [Some ''analysis'', Some ''record''] [UserMsg ''q''], Sleep 1000,
         AgentRun RunPred ''openai:gpt-5-mini-2025-08-07'' (Some ''sk-test'') [Some ''analysis'', Some ''record''] [UserMsg ''q''], Sleep 2000,
         AgentRun RunPred ''openai:gpt-5-mini-2025-08-07'' (Some ''sk-test'') [Some ''analysis'', Some ''record''] [UserMsg ''q''],
         AgentRun RunPred ''google:gemini-2.5-flash'' (Some ''sk-test'') [Some ''analysis'', Some ''record''] [UserMsg ''q'']])"
  by code_simp

section \<open>The steps of the workflow\<close>

lemma collect_context_data_ok:
  "memories_retrieve w input = Inr mems \<Longrightarrow>
   collect_context_data w input s =
     (None, s\<lparr>trace := trace s @ [MemoriesRetrieve input], contextData := mems,
               stepMeta := stepMeta s @ [step_ok ''collect_context_data'' (Some (length mems))]\<rparr>)"
  by (simp add: collect_context_data_def)

lemma collect_context_data_fails:
  "memories_retrieve w input = Inl e \<Longrightarrow>
   collect_context_data w input s =
     (Some (AppErr (WorkflowStepError ''collect_context_data'' ''Failed to retrieve context data''
              (JObj [(''step'', JStr ''collect_context_data''),
                     (''original'', case message_of e of None \<Rightarrow> JUndefined | Some m \<Rightarrow> JStr m)])
              None)),
      s\<lparr>trace := trace s @ [MemoriesRetrieve input],
        stepMeta := stepMeta s @ [step_error ''collect_context_data'' e]\<rparr>)"
  by (simp add: collect_context_data_def)

lemma analyze_realtime_data_run_no_end:
  "WorkflowEnd \<notin> set (snd (snd (analyze_realtime_data_run w pe input cd)))"
proof -
  let ?m0 = "[UserMsg (''Analyze current health situation for: '' @ input @
               ''. Use available tools to fetch weather/AQI data, hospital patterns, and health trends.'')]"
  obtain m1 r1 where c1: "call_with_fallback w pe RunModel [Some (context_text cd)] ?m0
       = (site_outcome w pe RunModel, m1,
          AgentRun RunModel (model pe) (apiKey pe) [Some (context_text cd)] ?m0 # r1)"
    and n1: "WorkflowEnd \<notin> set r1"
    using call_with_fallback_normal by blast
  show ?thesis
  proof (cases "site_outcome w pe RunModel")
    case (Inl e)
    then show ?thesis using c1 n1 by (simp add: analyze_realtime_data_run_def)
  next
    case (Inr response)
    let ?m = "m1 @ [AssistantMsg (message_content response) (message_tool_calls response)]"
    obtain x m2 where t: "run_tool_calls w (message_tool_calls response) ?m = (x, m2)"
      by (cases "run_tool_calls w (message_tool_calls response) ?m")
    obtain m3 r3 where c3: "call_with_fallback w pe Summarize [] m2
       = (site_outcome w pe Summarize, m3, AgentRun Summarize (model pe) (apiKey pe) [] m2 # r3)"
      and n3: "WorkflowEnd \<notin> set r3"
      using call_with_fallback_normal by blast
    show ?thesis
      using Inr c1 n1 t c3 n3
      by (cases x; cases "site_outcome w pe Summarize")
         (simp_all add: analyze_realtime_data_run_def Let_def)
  qed
qed

lemma analyze_realtime_data_fails:
  assumes "fst (analyze_realtime_data_run w pe input (contextData s)) = Inl e"
  shows "\<exists>tr. WorkflowEnd \<notin> set tr \<and> analyze_realtime_data w pe input s =
     (None, s\<lparr>trace := trace s @ tr,
               stepMeta := stepMeta s @ [step_error ''analyze_realtime_data'' e]\<rparr>)"
proof -
  obtain r m tr where a: "analyze_realtime_data_run w pe input (contextData s) = (r, m, tr)"
    by (cases "analyze_realtime_data_run w pe input (contextData s)")
  with assms have r: "r = Inl e" by simp
  have "WorkflowEnd \<notin> set tr" using analyze_realtime_data_run_no_end [of w pe input "contextData s"] a by simp
  moreover have "analyze_realtime_data w pe input s =
     (None, s\<lparr>trace := trace s @ tr,
               stepMeta := stepMeta s @ [step_error ''analyze_realtime_data'' e]\<rparr>)"
    using a r by (simp add: analyze_realtime_data_def)
  ultimately show ?thesis by blast
qed

lemma analyze_realtime_data_cases:
  "\<exists>tr r. WorkflowEnd \<notin> set tr \<and> sr_id r = ''analyze_realtime_data'' \<and>
     (analyze_realtime_data w pe input s =
        (None, s\<lparr>trace := trace s @ tr, stepMeta := stepMeta s @ [r]\<rparr>)
      \<or> (\<exists>v. analyze_realtime_data w pe input s =
        (None, s\<lparr>trace := trace s @ tr, dataAnalysis := v, stepMeta := stepMeta s @ [r]\<rparr>)))"
proof -
  obtain r m tr where a: "analyze_realtime_data_run w pe input (contextData s) = (r, m, tr)"
    by (cases "analyze_realtime_data_run w pe input (contextData s)")
  have n: "WorkflowEnd \<notin> set tr" using analyze_realtime_data_run_no_end [of w pe input "contextData s"] a by simp
  show ?thesis
  proof (cases r)
    case (Inl e)
    have "sr_id (step_error ''analyze_realtime_data'' e) = ''analyze_realtime_data''"
      by (simp add: step_error_def)
    moreover have "analyze_realtime_data w pe input s =
        (None, s\<lparr>trace := trace s @ tr,
                  stepMeta := stepMeta s @ [step_error ''analyze_realtime_data'' e]\<rparr>)"
      using a Inl by (simp add: analyze_realtime_data_def)
    ultimately show ?thesis using n by blast
  next
    case (Inr v)
    have "sr_id (step_ok ''analyze_realtime_data'' None) = ''analyze_realtime_data''"
      by (simp add: step_ok_def)
    moreover have "analyze_realtime_data w pe input s =
        (None, s\<lparr>trace := trace s @ tr, dataAnalysis := v,
                  stepMeta := stepMeta s @ [step_ok ''analyze_realtime_data'' None]\<rparr>)"
      using a Inr by (simp add: analyze_realtime_data_def)
    ultimately show ?thesis using n by blast
  qed
qed

lemma generate_predictions_skipped:
  "\<not> truthy_str (dataAnalysis s) \<Longrightarrow>
   generate_predictions w pe input s =
     (None, s\<lparr>stepMeta := stepMeta s @
        [step_skipped ''generate_predictions'' ''Skipped due to dataAnalysis error'']\<rparr>)"
  by (simp add: generate_predictions_def)

lemma generate_recommendations_skipped:
  "\<not> truthy_str (prediction s) \<Longrightarrow>
   generate_recommendations w pe s =
     (None, s\<lparr>stepMeta := stepMeta s @
        [step_skipped ''generate_recommendations'' ''Skipped due to prediction error'']\<rparr>)"
  by (simp add: generate_recommendations_def)

lemma generate_public_alerts_skipped:
  "\<not> truthy_str (recommendations s) \<Longrightarrow>
   generate_public_alerts w pe s =
     (None, s\<lparr>stepMeta := stepMeta s @
        [step_skipped ''generate_public_alerts'' ''Skipped due to recommendations error'']\<rparr>)"
  by (simp add: generate_public_alerts_def)

lemma generate_predictions_runs:
  assumes "truthy_str (dataAnalysis s)"
  shows "\<exists>tr. WorkflowEnd \<notin> set tr \<and> generate_predictions w pe input s =
     (case site_outcome w pe RunPred of
        Inr r \<Rightarrow> (None, s\<lparr>trace := trace s @ tr, prediction := resp_output r,
                            stepMeta := stepMeta s @ [step_ok ''generate_predictions'' None]\<rparr>)
      | Inl e \<Rightarrow> (Some e, s\<lparr>trace := trace s @ tr\<rparr>))"
proof -
  let ?m = "[UserMsg (''Generate detailed health surge predictions for: '' @ input)]"
  obtain m1 r1 where c: "call_with_fallback w pe RunPred [dataAnalysis s, Some (context_text (contextData s))] ?m
       = (site_outcome w pe RunPred, m1, AgentRun RunPred (model pe) (apiKey pe) [dataAnalysis s, Some (context_text (contextData s))] ?m # r1)"
    and n: "WorkflowEnd \<notin> set r1"
    using call_with_fallback_normal by blast
  have "WorkflowEnd \<notin> set (AgentRun RunPred (model pe) (apiKey pe) [dataAnalysis s, Some (context_text (contextData s))] ?m # r1)" using n by simp
  moreover have "generate_predictions w pe input s =
     (case site_outcome w pe RunPred of
        Inr r \<Rightarrow> (None, s\<lparr>trace := trace s @ (AgentRun RunPred (model pe) (apiKey pe) [dataAnalysis s, Some (context_text (contextData s))] ?m # r1), prediction := resp_output r,
                            stepMeta := stepMeta s @ [step_ok ''generate_predictions'' None]\<rparr>)
      | Inl e \<Rightarrow> (Some e, s\<lparr>trace := trace s @ (AgentRun RunPred (model pe) (apiKey pe) [dataAnalysis s, Some (context_text (contextData s))] ?m # r1)\<rparr>))"
    using assms c by (cases "site_outcome w pe RunPred") (simp_all add: generate_predictions_def)
  ultimately show ?thesis by blast
qed

lemma generate_recommendations_runs:
  assumes "truthy_str (prediction s)"
  shows "\<exists>tr. WorkflowEnd \<notin> set tr \<and> generate_recommendations w pe s =
     (case site_outcome w pe RunRec of
        Inr r \<Rightarrow> (None, s\<lparr>trace := trace s @ tr, recommendations := resp_output r,
                            stepMeta := stepMeta s @ [step_ok ''generate_recommendations'' None]\<rparr>)
      | Inl e \<Rightarrow> (Some e, s\<lparr>trace := trace s @ tr\<rparr>))"
proof -
  let ?m = "[UserMsg ''Generate actionable hospital recommendations based on the predictions.'']"
  obtain m1 r1 where c: "call_with_fallback w pe RunRec [prediction s] ?m
       = (site_outcome w pe RunRec, m1, AgentRun RunRec (model pe) (apiKey pe) [prediction s] ?m # r1)"
    and n: "WorkflowEnd \<notin> set r1"
    using call_with_fallback_normal by blast
  have "WorkflowEnd \<notin> set (AgentRun RunRec (model pe) (apiKey pe) [prediction s] ?m # r1)" using n by simp
  moreover have "generate_recommendations w pe s =
     (case site_outcome w pe RunRec of
        Inr r \<Rightarrow> (None, s\<lparr>trace := trace s @ (AgentRun RunRec (model pe) (apiKey pe) [prediction s] ?m # r1), recommendations := resp_output r,
                            stepMeta := stepMeta s @ [step_ok ''generate_recommendations'' None]\<rparr>)
      | Inl e \<Rightarrow> (Some e, s\<lparr>trace := trace s @ (AgentRun RunRec (model pe) (apiKey pe) [prediction s] ?m # r1)\<rparr>))"
    using assms c by (cases "site_outcome w pe RunRec") (simp_all add: generate_recommendations_def)
  ultimately show ?thesis by blast
qed

lemma generate_public_alerts_runs:
  assumes "truthy_str (recommendations s)"
  shows "\<exists>tr. WorkflowEnd \<notin> set tr \<and> generate_public_alerts w pe s =
     (case site_outcome w pe RunAlerts of
        Inr r \<Rightarrow> (None, s\<lparr>trace := trace s @ tr, publicAlerts := resp_output r,
                            stepMeta := stepMeta s @ [step_ok ''generate_public_alerts'' None]\<rparr>)
      | Inl e \<Rightarrow> (Some e, s\<lparr>trace := trace s @ tr\<rparr>))"
proof -
  let ?m = "[UserMsg ''Generate public health alerts and preventive guidance.'']"
  obtain m1 r1 where c: "call_with_fallback w pe RunAlerts [prediction s, recommendations s] ?m
       = (site_outcome w pe RunAlerts, m1, AgentRun RunAlerts (model pe) (apiKey pe) [prediction s, recommendations s] ?m # r1)"
    and n: "WorkflowEnd \<notin> set r1"
    using call_with_fallback_normal by blast
  have "WorkflowEnd \<notin> set (AgentRun RunAlerts (model pe) (apiKey pe) [prediction s, recommendations s] ?m # r1)" using n by simp
  moreover have "generate_public_alerts w pe s =
     (case site_outcome w pe RunAlerts of
        Inr r \<Rightarrow> (None, s\<lparr>trace := trace s @ (AgentRun RunAlerts (model pe) (apiKey pe) [prediction s, recommendations s] ?m # r1), publicAlerts := resp_output r,
                            stepMeta := stepMeta s @ [step_ok ''generate_public_alerts'' None]\<rparr>)
      | Inl e \<Rightarrow> (Some e, s\<lparr>trace := trace s @ (AgentRun RunAlerts (model pe) (apiKey pe) [prediction s, recommendations s] ?m # r1)\<rparr>))"
    using assms c by (cases "site_outcome w pe RunAlerts") (simp_all add: generate_public_alerts_def)
  ultimately show ?thesis by blast
qed

lemma generate_conversational_response_runs:
  "\<exists>rest. WorkflowEnd \<notin> set rest \<and> generate_conversational_response w pe input s =
     (case site_outcome w pe RunConv of
        Inr r \<Rightarrow> (None, s\<lparr>trace := trace s @ AgentRun RunConv (model pe) (apiKey pe)
            [dataAnalysis s, prediction s, recommendations s, publicAlerts s] [UserMsg input] # rest,
                            conversationalResponse := resp_output r,
                            stepMeta := stepMeta s @ [step_ok ''generate_conversational_response'' None]\<rparr>)
      | Inl e \<Rightarrow> (Some e, s\<lparr>trace := trace s @ AgentRun RunConv (model pe) (apiKey pe)
            [dataAnalysis s, prediction s, recommendations s, publicAlerts s] [UserMsg input] # rest\<rparr>))"
proof -
  obtain m1 r1 where c: "call_with_fallback w pe RunConv [dataAnalysis s, prediction s, recommendations s, publicAlerts s] [UserMsg input]
       = (site_outcome w pe RunConv, m1, AgentRun RunConv (model pe) (apiKey pe)
            [dataAnalysis s, prediction s, recommendations s, publicAlerts s] [UserMsg input] # r1)"
    and n: "WorkflowEnd \<notin> set r1"
    using call_with_fallback_normal by blast
  have "generate_conversational_response w pe input s =
     (case site_outcome w pe RunConv of
        Inr r \<Rightarrow> (None, s\<lparr>trace := trace s @ AgentRun RunConv (model pe) (apiKey pe)
            [dataAnalysis s, prediction s, recommendations s, publicAlerts s] [UserMsg input] # r1,
                            conversationalResponse := resp_output r,
                            stepMeta := stepMeta s @ [step_ok ''generate_conversational_response'' None]\<rparr>)
      | Inl e \<Rightarrow> (Some e, s\<lparr>trace := trace s @ AgentRun RunConv (model pe) (apiKey pe)
            [dataAnalysis s, prediction s, recommendations s, publicAlerts s] [UserMsg input] # r1\<rparr>))"
    using c by (cases "site_outcome w pe RunConv") (simp_all add: generate_conversational_response_def)
  with n show ?thesis by blast
qed

lemma and_then_None [simp]: "and_then (None, s) f = f s"
  by (simp add: and_then_def)

lemma and_then_Some [simp]: "and_then (Some e, s) f = (Some e, s)"
  by (simp add: and_then_def)

lemma and_then_NoneE:
  assumes "and_then r f = (None, s')"
  obtains s where "r = (None, s)" and "f s = (None, s')"
  using assms by (cases r; cases "fst r") (auto simp: and_then_def)

lemma and_then_no_end:
  assumes "WorkflowEnd \<notin> set (trace (snd r))"
    and "\<And>s. WorkflowEnd \<notin> set (trace s) \<Longrightarrow> WorkflowEnd \<notin> set (trace (snd (f s)))"
  shows "WorkflowEnd \<notin> set (trace (snd (and_then r f)))"
  using assms by (cases r; cases "fst r") (auto simp: and_then_def)

lemma collect_context_data_no_end:
  "WorkflowEnd \<notin> set (trace s) \<Longrightarrow> WorkflowEnd \<notin> set (trace (snd (collect_context_data w input s)))"
  by (cases "memories_retrieve w input") (simp_all add: collect_context_data_def)

lemma analyze_realtime_data_no_end:
  assumes "WorkflowEnd \<notin> set (trace s)"
  shows "WorkflowEnd \<notin> set (trace (snd (analyze_realtime_data w pe input s)))"
proof -
  from analyze_realtime_data_cases [of w pe input s]
  obtain tr r where "WorkflowEnd \<notin> set tr"
    and "analyze_realtime_data w pe input s =
        (None, s\<lparr>trace := trace s @ tr, stepMeta := stepMeta s @ [r]\<rparr>)
      \<or> (\<exists>v. analyze_realtime_data w pe input s =
        (None, s\<lparr>trace := trace s @ tr, dataAnalysis := v, stepMeta := stepMeta s @ [r]\<rparr>))"
    by blast
  with assms show ?thesis by auto
qed

lemma generate_predictions_no_end:
  assumes "WorkflowEnd \<notin> set (trace s)"
  shows "WorkflowEnd \<notin> set (trace (snd (generate_predictions w pe input s)))"
proof (cases "truthy_str (dataAnalysis s)")
  case True
  from generate_predictions_runs [OF True, of w pe input]
  show ?thesis using assms by (cases "site_outcome w pe RunPred") auto
next
  case False
  then show ?thesis using assms by (simp add: generate_predictions_skipped)
qed

lemma generate_recommendations_no_end:
  assumes "WorkflowEnd \<notin> set (trace s)"
  shows "WorkflowEnd \<notin> set (trace (snd (generate_recommendations w pe s)))"
proof (cases "truthy_str (prediction s)")
  case True
  from generate_recommendations_runs [OF True, of w pe]
  show ?thesis using assms by (cases "site_outcome w pe RunRec") auto
next
  case False
  then show ?thesis using assms by (simp add: generate_recommendations_skipped)
qed

lemma generate_public_alerts_no_end:
  assumes "WorkflowEnd \<notin> set (trace s)"
  shows "WorkflowEnd \<notin> set (trace (snd (generate_public_alerts w pe s)))"
proof (cases "truthy_str (recommendations s)")
  case True
  from generate_public_alerts_runs [OF True, of w pe]
  show ?thesis using assms by (cases "site_outcome w pe RunAlerts") auto
next
  case False
  then show ?thesis using assms by (simp add: generate_public_alerts_skipped)
qed

lemma generate_conversational_response_no_end:
  assumes "WorkflowEnd \<notin> set (trace s)"
  shows "WorkflowEnd \<notin> set (trace (snd (generate_conversational_response w pe input s)))"
  using generate_conversational_response_runs [of w pe input s] assms
  by (cases "site_outcome w pe RunConv") auto

lemma try_block_no_end: "WorkflowEnd \<notin> set (trace (snd (try_block w pe input)))"
  unfolding try_block_def
  by (intro and_then_no_end collect_context_data_no_end analyze_realtime_data_no_end
        generate_predictions_no_end generate_recommendations_no_end
        generate_public_alerts_no_end generate_conversational_response_no_end)
     (simp_all add: initial_vars_def)

lemma collect_context_data_id:
  "collect_context_data w input s = (None, s') \<Longrightarrow>
   map sr_id (stepMeta s') = map sr_id (stepMeta s) @ [''collect_context_data'']"
  by (cases "memories_retrieve w input") (auto simp: collect_context_data_def step_ok_def)

lemma analyze_realtime_data_id:
  assumes "analyze_realtime_data w pe input s = (None, s')"
  shows "map sr_id (stepMeta s') = map sr_id (stepMeta s) @ [''analyze_realtime_data'']"
  using analyze_realtime_data_cases [of w pe input s] assms by auto

lemma generate_predictions_id:
  assumes "generate_predictions w pe input s = (None, s')"
  shows "map sr_id (stepMeta s') = map sr_id (stepMeta s) @ [''generate_predictions'']"
proof (cases "truthy_str (dataAnalysis s)")
  case True
  from generate_predictions_runs [OF True, of w pe input] assms
  show ?thesis by (cases "site_outcome w pe RunPred") (auto simp: step_ok_def)
next
  case False
  then show ?thesis using assms by (auto simp: generate_predictions_skipped step_skipped_def)
qed

lemma generate_recommendations_id:
  assumes "generate_recommendations w pe s = (None, s')"
  shows "map sr_id (stepMeta s') = map sr_id (stepMeta s) @ [''generate_recommendations'']"
proof (cases "truthy_str (prediction s)")
  case True
  from generate_recommendations_runs [OF True, of w pe] assms
  show ?thesis by (cases "site_outcome w pe RunRec") (auto simp: step_ok_def)
next
  case False
  then show ?thesis using assms by (auto simp: generate_recommendations_skipped step_skipped_def)
qed

lemma generate_public_alerts_id:
  assumes "generate_public_alerts w pe s = (None, s')"
  shows "map sr_id (stepMeta s') = map sr_id (stepMeta s) @ [''generate_public_alerts'']"
proof (cases "truthy_str (recommendations s)")
  case True
  from generate_public_alerts_runs [OF True, of w pe] assms
  show ?thesis by (cases "site_outcome w pe RunAlerts") (auto simp: step_ok_def)
next
  case False
  then show ?thesis using assms by (auto simp: generate_public_alerts_skipped step_skipped_def)
qed

lemma generate_conversational_response_id:
  assumes "generate_conversational_response w pe input s = (None, s')"
  shows "map sr_id (stepMeta s') = map sr_id (stepMeta s) @ [''generate_conversational_response'']"
  using generate_conversational_response_runs [of w pe input s] assms
  by (cases "site_outcome w pe RunConv") (auto simp: step_ok_def)

lemma try_block_None_ids:
  assumes "try_block w pe input = (None, s)"
  shows "map sr_id (stepMeta s) = step_ids"
proof -
  from assms obtain s5 where
    b5: "and_then (and_then (and_then (and_then
       (collect_context_data w input initial_vars)
       (analyze_realtime_data w pe input))
       (generate_predictions w pe input))
       (generate_recommendations w pe))
       (generate_public_alerts w pe) = (None, s5)"
    and c6: "generate_conversational_response w pe input s5 = (None, s)"
    unfolding try_block_def by (rule and_then_NoneE)
  from b5 obtain s4 where
    b4: "and_then (and_then (and_then
       (collect_context_data w input initial_vars)
       (analyze_realtime_data w pe input))
       (generate_predictions w pe input))
       (generate_recommendations w pe) = (None, s4)"
    and c5: "generate_public_alerts w pe s4 = (None, s5)"
    by (rule and_then_NoneE)
  from b4 obtain s3 where
    b3: "and_then (and_then
       (collect_context_data w input initial_vars)
       (analyze_realtime_data w pe input))
       (generate_predictions w pe input) = (None, s3)"
    and c4: "generate_recommendations w pe s3 = (None, s4)"
    by (rule and_then_NoneE)
  from b3 obtain s2 where
    b2: "and_then (collect_context_data w input initial_vars)
       (analyze_realtime_data w pe input) = (None, s2)"
    and c3: "generate_predictions w pe input s2 = (None, s3)"
    by (rule and_then_NoneE)
  from b2 obtain s1 where
    c1: "collect_context_data w input initial_vars = (None, s1)"
    and c2: "analyze_realtime_data w pe input s1 = (None, s2)"
    by (rule and_then_NoneE)
  have "map sr_id (stepMeta s1) = [''collect_context_data'']"
    using collect_context_data_id [OF c1] by (simp add: initial_vars_def)
  then have "map sr_id (stepMeta s2) = [''collect_context_data'', ''analyze_realtime_data'']"
    using analyze_realtime_data_id [OF c2] by simp
  then have "map sr_id (stepMeta s3) =
      [''collect_context_data'', ''analyze_realtime_data'', ''generate_predictions'']"
    using generate_predictions_id [OF c3] by simp
  then have "map sr_id (stepMeta s4) =
      [''collect_context_data'', ''analyze_realtime_data'', ''generate_predictions'',
       ''generate_recommendations'']"
    using generate_recommendations_id [OF c4] by simp
  then have "map sr_id (stepMeta s5) =
      [''collect_context_data'', ''analyze_realtime_data'', ''generate_predictions'',
       ''generate_recommendations'', ''generate_public_alerts'']"
    using generate_public_alerts_id [OF c5] by simp
  then show ?thesis
    using generate_conversational_response_id [OF c6] by (simp add: step_ids_def)
qed

lemma healEyeWorkflow_with_key:
  assumes "truthy_str (LANGBASE_API_KEY pe)"
  shows "healEyeWorkflow w pe input =
    (case try_block w pe input of
       (None, s) \<Rightarrow>
         (Returned (finalResult w s), stepMeta s, key_warning pe @ trace s @ [WorkflowEnd])
     | (Some err, s) \<Rightarrow>
         (Returned (errorEnvelope err), stepMeta s,
          key_warning pe @ trace s @ [ConsoleError, WorkflowEnd]))"
  using assms
  by (simp add: healEyeWorkflow_def mergeEnvelope_def finalResult_def successEnvelope_def
      split: prod.splits option.splits)

lemma key_warning_no_end: "WorkflowEnd \<notin> set (key_warning pe)"
  by (simp add: key_warning_def split: option.splits)

lemma try_block_analysis_fails:
  assumes mem: "memories_retrieve w input = Inr mems"
    and fail: "fst (analyze_realtime_data_run w pe input mems) = Inl e"
  shows "\<exists>tr rest. try_block w pe input =
     (case site_outcome w pe RunConv of
        Inr r \<Rightarrow>
          (None,
           \<lparr>stepMeta =
              [step_ok ''collect_context_data'' (Some (length mems)),
               step_error ''analyze_realtime_data'' e,
               step_skipped ''generate_predictions'' ''Skipped due to dataAnalysis error'',
               step_skipped ''generate_recommendations'' ''Skipped due to prediction error'',
               step_skipped ''generate_public_alerts'' ''Skipped due to recommendations error'',
               step_ok ''generate_conversational_response'' None],
            trace = MemoriesRetrieve input # tr @
                      AgentRun RunConv (model pe) (apiKey pe) [None, None, None, None] [UserMsg input] # rest,
            contextData = mems, dataAnalysis = None, prediction = None, recommendations = None,
            publicAlerts = None, conversationalResponse = resp_output r\<rparr>)
      | Inl e' \<Rightarrow>
          (Some e',
           \<lparr>stepMeta =
              [step_ok ''collect_context_data'' (Some (length mems)),
               step_error ''analyze_realtime_data'' e,
               step_skipped ''generate_predictions'' ''Skipped due to dataAnalysis error'',
               step_skipped ''generate_recommendations'' ''Skipped due to prediction error'',
               step_skipped ''generate_public_alerts'' ''Skipped due to recommendations error''],
            trace = MemoriesRetrieve input # tr @
                      AgentRun RunConv (model pe) (apiKey pe) [None, None, None, None] [UserMsg input] # rest,
            contextData = mems, dataAnalysis = None, prediction = None, recommendations = None,
            publicAlerts = None, conversationalResponse = None\<rparr>))"
proof -
  let ?s1 = "\<lparr>stepMeta = [step_ok ''collect_context_data'' (Some (length mems))],
             trace = [MemoriesRetrieve input],
             contextData = mems, dataAnalysis = None, prediction = None, recommendations = None,
             publicAlerts = None, conversationalResponse = None\<rparr>"
  have c1: "collect_context_data w input initial_vars = (None, ?s1)"
    by (simp add: collect_context_data_ok [OF mem] initial_vars_def)
  obtain tr where c2: "analyze_realtime_data w pe input ?s1 =
      (None, ?s1\<lparr>trace := trace ?s1 @ tr,
                  stepMeta := stepMeta ?s1 @ [step_error ''analyze_realtime_data'' e]\<rparr>)"
    using analyze_realtime_data_fails [of w pe input ?s1 e] fail by auto
  let ?s2 = "\<lparr>stepMeta = [step_ok ''collect_context_data'' (Some (length mems)),
                         step_error ''analyze_realtime_data'' e],
             trace = MemoriesRetrieve input # tr,
             contextData = mems, dataAnalysis = None, prediction = None, recommendations = None,
             publicAlerts = None, conversationalResponse = None\<rparr>"
  have c2': "analyze_realtime_data w pe input ?s1 = (None, ?s2)"
    using c2 by simp
  let ?s3 = "?s2\<lparr>stepMeta := stepMeta ?s2 @
        [step_skipped ''generate_predictions'' ''Skipped due to dataAnalysis error'']\<rparr>"
  have c3: "generate_predictions w pe input ?s2 = (None, ?s3)"
    by (rule generate_predictions_skipped) (simp add: truthy_str_def)
  let ?s4 = "?s3\<lparr>stepMeta := stepMeta ?s3 @
        [step_skipped ''generate_recommendations'' ''Skipped due to prediction error'']\<rparr>"
  have c4: "generate_recommendations w pe ?s3 = (None, ?s4)"
    by (rule generate_recommendations_skipped) (simp add: truthy_str_def)
  let ?s5 = "?s4\<lparr>stepMeta := stepMeta ?s4 @
        [step_skipped ''generate_public_alerts'' ''Skipped due to recommendations error'']\<rparr>"
  have c5: "generate_public_alerts w pe ?s4 = (None, ?s5)"
    by (rule generate_public_alerts_skipped) (simp add: truthy_str_def)
  obtain rest where c6: "generate_conversational_response w pe input ?s5 =
     (case site_outcome w pe RunConv of
        Inr r \<Rightarrow> (None, ?s5\<lparr>trace := trace ?s5 @ AgentRun RunConv (model pe) (apiKey pe)
            [dataAnalysis ?s5, prediction ?s5, recommendations ?s5, publicAlerts ?s5] [UserMsg input] # rest,
                            conversationalResponse := resp_output r,
                            stepMeta := stepMeta ?s5 @ [step_ok ''generate_conversational_response'' None]\<rparr>)
      | Inl e \<Rightarrow> (Some e, ?s5\<lparr>trace := trace ?s5 @ AgentRun RunConv (model pe) (apiKey pe)
            [dataAnalysis ?s5, prediction ?s5, recommendations ?s5, publicAlerts ?s5] [UserMsg input] # rest\<rparr>))"
    using generate_conversational_response_runs [of w pe input ?s5] by blast
  have "try_block w pe input = generate_conversational_response w pe input ?s5"
    by (simp only: try_block_def c1 and_then_None c2' c3 c4 c5)
  then have "try_block w pe input =
     (case site_outcome w pe RunConv of
        Inr r \<Rightarrow>
          (None,
           \<lparr>stepMeta =
              [step_ok ''collect_context_data'' (Some (length mems)),
               step_error ''analyze_realtime_data'' e,
               step_skipped ''generate_predictions'' ''Skipped due to dataAnalysis error'',
               step_skipped ''generate_recommendations'' ''Skipped due to prediction error'',
               step_skipped ''generate_public_alerts'' ''Skipped due to recommendations error'',
               step_ok ''generate_conversational_response'' None],
            trace = MemoriesRetrieve input # tr @
                      AgentRun RunConv (model pe) (apiKey pe) [None, None, None, None] [UserMsg input] # rest,
            contextData = mems, dataAnalysis = None, prediction = None, recommendations = None,
            publicAlerts = None, conversationalResponse = resp_output r\<rparr>)
      | Inl e' \<Rightarrow>
          (Some e',
           \<lparr>stepMeta =
              [step_ok ''collect_context_data'' (Some (length mems)),
               step_error ''analyze_realtime_data'' e,
               step_skipped ''generate_predictions'' ''Skipped due to dataAnalysis error'',
               step_skipped ''generate_recommendations'' ''Skipped due to prediction error'',
               step_skipped ''generate_public_alerts'' ''Skipped due to recommendations error''],
            trace = MemoriesRetrieve input # tr @
                      AgentRun RunConv (model pe) (apiKey pe) [None, None, None, None] [UserMsg input] # rest,
            contextData = mems, dataAnalysis = None, prediction = None, recommendations = None,
            publicAlerts = None, conversationalResponse = None\<rparr>))"
    using c6 by (cases "site_outcome w pe RunConv") simp_all
  then show ?thesis by blast
qed

lemma generate_predictions_None:
  assumes "site_outcome w pe RunPred = Inr r"
  shows "\<exists>s'. generate_predictions w pe input s = (None, s')"
proof (cases "truthy_str (dataAnalysis s)")
  case True
  from generate_predictions_runs [OF True, of w pe input] assms show ?thesis by auto
next
  case False
  then show ?thesis by (simp add: generate_predictions_skipped)
qed

lemma generate_recommendations_None:
  assumes "site_outcome w pe RunRec = Inr r"
  shows "\<exists>s'. generate_recommendations w pe s = (None, s')"
proof (cases "truthy_str (prediction s)")
  case True
  from generate_recommendations_runs [OF True, of w pe] assms show ?thesis by auto
next
  case False
  then show ?thesis by (simp add: generate_recommendations_skipped)
qed

lemma generate_public_alerts_None:
  assumes "site_outcome w pe RunAlerts = Inr r"
  shows "\<exists>s'. generate_public_alerts w pe s = (None, s')"
proof (cases "truthy_str (recommendations s)")
  case True
  from generate_public_alerts_runs [OF True, of w pe] assms show ?thesis by auto
next
  case False
  then show ?thesis by (simp add: generate_public_alerts_skipped)
qed

lemma try_block_sites_ok:
  assumes mem: "memories_retrieve w input = Inr mems"
    and p: "site_outcome w pe RunPred = Inr r3"
    and r: "site_outcome w pe RunRec = Inr r4"
    and a: "site_outcome w pe RunAlerts = Inr r5"
    and c: "site_outcome w pe RunConv = Inr convResp"
  shows "\<exists>s. try_block w pe input = (None, s)
           \<and> conversationalResponse s = resp_output convResp
           \<and> AgentRun RunConv (model pe) (apiKey pe)
                 [dataAnalysis s, prediction s, recommendations s, publicAlerts s] [UserMsg input]
               \<in> set (trace s)"
proof -
  obtain s1 where c1: "collect_context_data w input initial_vars = (None, s1)"
    using collect_context_data_ok [OF mem] by blast
  obtain s2 where c2: "analyze_realtime_data w pe input s1 = (None, s2)"
    using analyze_realtime_data_cases [of w pe input s1] by blast
  obtain s3 where c3: "generate_predictions w pe input s2 = (None, s3)"
    using generate_predictions_None [OF p] by blast
  obtain s4 where c4: "generate_recommendations w pe s3 = (None, s4)"
    using generate_recommendations_None [OF r] by blast
  obtain s5 where c5: "generate_public_alerts w pe s4 = (None, s5)"
    using generate_public_alerts_None [OF a] by blast
  obtain rest where c6: "generate_conversational_response w pe input s5 =
      (None, s5\<lparr>trace := trace s5 @ AgentRun RunConv (model pe) (apiKey pe)
                   [dataAnalysis s5, prediction s5, recommendations s5, publicAlerts s5]
                   [UserMsg input] # rest,
                 conversationalResponse := resp_output convResp,
                 stepMeta := stepMeta s5 @ [step_ok ''generate_conversational_response'' None]\<rparr>)"
    using generate_conversational_response_runs [of w pe input s5] c by auto
  have "try_block w pe input = generate_conversational_response w pe input s5"
    by (simp only: try_block_def c1 and_then_None c2 c3 c4 c5)
  with c6 show ?thesis by simp
qed

section \<open>The workflow as a whole\<close>

text \<open>
  C1, as the code has it. With a credential configured, if the context collection
  succeeds and the call site of the conversational step ends with a response, then,
  when the real-time analysis fails (so that the three gated steps are skipped) or when
  none of the call sites of the prediction, recommendation and alert steps ends with a
  throw, the invocation returns a success envelope whose \<^verbatim>\<open>conversational_response\<close> is
  the output of that response (non-null when the output is) and whose meta holds the
  recorded steps. The conversational step has issued its reasoning call with the user
  input, and the values interpolated into its instructions are the four prior step
  outputs exactly as the envelope reports them under \<^verbatim>\<open>detailed_analysis\<close>: the
  outputs that are present, and null for each one that is absent.
\<close>

theorem conversational_response_delivered:
  assumes key: "truthy_str (LANGBASE_API_KEY pe)"
    and mem: "memories_retrieve w input = Inr mems"
    and gate: "(\<exists>e. fst (analyze_realtime_data_run w pe input mems) = Inl e)
               \<or> (\<forall>site \<in> {RunPred, RunRec, RunAlerts}. \<exists>r. site_outcome w pe site = Inr r)"
    and conv: "site_outcome w pe RunConv = Inr convResp"
  shows "\<exists>d. completion_of (healEyeWorkflow w pe input)
               = Returned (Success d \<lparr>steps = steps_of (healEyeWorkflow w pe input)\<rparr>)
           \<and> conversational_response d = resp_output convResp
           \<and> AgentRun RunConv (model pe) (apiKey pe)
                 [data_analysis (detailed_analysis d), predictions (detailed_analysis d),
                  da_recommendations (detailed_analysis d), public_alerts (detailed_analysis d)]
                 [UserMsg input]
               \<in> set (trace_of (healEyeWorkflow w pe input))"
proof -
  have "\<exists>s. try_block w pe input = (None, s)
           \<and> conversationalResponse s = resp_output convResp
           \<and> AgentRun RunConv (model pe) (apiKey pe)
                 [dataAnalysis s, prediction s, recommendations s, publicAlerts s] [UserMsg input]
               \<in> set (trace s)"
    using gate
  proof
    assume "\<exists>e. fst (analyze_realtime_data_run w pe input mems) = Inl e"
    then obtain e where "fst (analyze_realtime_data_run w pe input mems) = Inl e" ..
    from try_block_analysis_fails [OF mem this] conv show ?thesis by auto
  next
    assume "\<forall>site \<in> {RunPred, RunRec, RunAlerts}. \<exists>r. site_outcome w pe site = Inr r"
    then obtain r3 r4 r5 where "site_outcome w pe RunPred = Inr r3"
      "site_outcome w pe RunRec = Inr r4" "site_outcome w pe RunAlerts = Inr r5"
      by auto
    then show ?thesis using try_block_sites_ok [OF mem _ _ _ conv] by blast
  qed
  then obtain s where tb: "try_block w pe input = (None, s)"
    and cr: "conversationalResponse s = resp_output convResp"
    and tr: "AgentRun RunConv (model pe) (apiKey pe)
                 [dataAnalysis s, prediction s, recommendations s, publicAlerts s] [UserMsg input]
               \<in> set (trace s)"
    by blast
  show ?thesis
    using tb cr tr
    by (simp add: healEyeWorkflow_with_key [OF key] completion_of_def steps_of_def trace_of_def
        finalResult_def successEnvelope_def)
qed

theorem conversational_response_delivered_witness:
  "truthy_str (LANGBASE_API_KEY env_openai)
   \<and> memories_retrieve world_analysis_fails ''test'' = Inr [\<lparr>mem_text = ''record''\<rparr>]
   \<and> fst (analyze_realtime_data_run world_analysis_fails env_openai ''test'' [\<lparr>mem_text = ''record''\<rparr>])
       = Inl (PlainErr ''boom'')
   \<and> site_outcome world_analysis_fails env_openai RunConv = Inr ok_response
   \<and> (\<exists>d. completion_of (healEyeWorkflow world_analysis_fails env_openai ''test'')
             = Returned (Success d \<lparr>steps = steps_of (healEyeWorkflow world_analysis_fails env_openai ''test'')\<rparr>)
          \<and> conversational_response d = Some ''text''
          \<and> AgentRun RunConv ''openai:gpt-5-mini-2025-08-07'' (Some ''sk-test'')
                 [data_analysis (detailed_analysis d), predictions (detailed_analysis d),
                  da_recommendations (detailed_analysis d), public_alerts (detailed_analysis d)]
                 [UserMsg ''test'']
               \<in> set (trace_of (healEyeWorkflow world_analysis_fails env_openai ''test'')))"
proof -
  have h2: "memories_retrieve world_analysis_fails ''test'' = Inr [\<lparr>mem_text = ''record''\<rparr>]"
    by (simp add: world_analysis_fails_def world_of_def)
  have h3: "fst (analyze_realtime_data_run world_analysis_fails env_openai ''test'' [\<lparr>mem_text = ''record''\<rparr>])
              = Inl (PlainErr ''boom'')"
    by code_simp
  have h4: "site_outcome world_analysis_fails env_openai RunConv = Inr ok_response"
    by code_simp
  have g: "(\<exists>e. fst (analyze_realtime_data_run world_analysis_fails env_openai ''test'' [\<lparr>mem_text = ''record''\<rparr>]) = Inl e)
      \<or> (\<forall>site \<in> {RunPred, RunRec, RunAlerts}. \<exists>r. site_outcome world_analysis_fails env_openai site = Inr r)"
    using h3 by blast
  from conversational_response_delivered [OF env_openai_key h2 g h4]
  show ?thesis using env_openai_key h2 h3 h4
    by (auto simp: ok_response_def env_openai_model openai_model_def)
qed

text \<open>
  C1 as stated fails: the input is a non-empty string and the credential is configured,
  but the memory retrieval of the context collection throws. That failure is fatal by
  design: the invocation returns an envelope with \<^verbatim>\<open>success: false\<close> and code
  \<^verbatim>\<open>WORKFLOW_STEP_ERROR\<close>, and the conversational step issues no call.
\<close>

theorem conversational_response_counterexample:
  "truthy_str (LANGBASE_API_KEY env_openai)
   \<and> memories_retrieve world_context_fails ''test'' = Inl (PlainErr ''network down'')
   \<and> completion_of (healEyeWorkflow world_context_fails env_openai ''test'') =
       Returned (Failure
         \<lparr>ej_code = ''WORKFLOW_STEP_ERROR'', ej_message = ''Failed to retrieve context data'',
          ej_details = JObj [(''step'', JStr ''collect_context_data''),
                             (''original'', JStr ''network down'')],
          ej_retryable = Some False, ej_docs = None,
          ej_step = JStr ''collect_context_data''\<rparr> None)
   \<and> trace_of (healEyeWorkflow world_context_fails env_openai ''test'')
       = [MemoriesRetrieve ''test'', ConsoleError, WorkflowEnd]"
  by code_simp

text \<open>
  C2. With a credential configured, if the memory retrieval of the context collection
  throws, the invocation returns a failure envelope with code \<^verbatim>\<open>WORKFLOW_STEP_ERROR\<close>
  and step \<^verbatim>\<open>collect_context_data\<close>; the recorded steps are exactly one, the failed
  context collection; and the only effects are the retrieval, the \<^verbatim>\<open>console.error\<close> and
  \<^verbatim>\<open>workflow.end()\<close> (after the key warning, if any): no other step runs.
\<close>

theorem context_failure_is_fatal:
  assumes "truthy_str (LANGBASE_API_KEY pe)" and "memories_retrieve w input = Inl e"
  shows "completion_of (healEyeWorkflow w pe input) =
           Returned (Failure
             \<lparr>ej_code = ''WORKFLOW_STEP_ERROR'', ej_message = ''Failed to retrieve context data'',
              ej_details = JObj [(''step'', JStr ''collect_context_data''),
                                 (''original'', case message_of e of None \<Rightarrow> JUndefined | Some m \<Rightarrow> JStr m)],
              ej_retryable = Some False, ej_docs = None,
              ej_step = JStr ''collect_context_data''\<rparr> None)
         \<and> steps_of (healEyeWorkflow w pe input) = [step_error ''collect_context_data'' e]
         \<and> length (steps_of (healEyeWorkflow w pe input)) = 1
         \<and> trace_of (healEyeWorkflow w pe input) =
             key_warning pe @ [MemoriesRetrieve input, ConsoleError, WorkflowEnd]"
proof -
  have "try_block w pe input =
     (Some (AppErr (WorkflowStepError ''collect_context_data'' ''Failed to retrieve context data''
              (JObj [(''step'', JStr ''collect_context_data''),
                     (''original'', case message_of e of None \<Rightarrow> JUndefined | Some m \<Rightarrow> JStr m)])
              None)),
      initial_vars\<lparr>trace := trace initial_vars @ [MemoriesRetrieve input],
        stepMeta := stepMeta initial_vars @ [step_error ''collect_context_data'' e]\<rparr>)"
    by (simp add: try_block_def collect_context_data_fails [OF assms(2)])
  then show ?thesis
    by (simp add: healEyeWorkflow_with_key [OF assms(1)] completion_of_def steps_of_def
        trace_of_def initial_vars_def toJSON_def base_toJSON_def or_undefined_def
        WorkflowStepError_def BaseAppError_def no_options_def)
qed

theorem context_failure_is_fatal_witness:
  "truthy_str (LANGBASE_API_KEY env_openai)
   \<and> memories_retrieve world_context_fails ''test'' = Inl (PlainErr ''network down'')
   \<and> length (steps_of (healEyeWorkflow world_context_fails env_openai ''test'')) = 1
   \<and> trace_of (healEyeWorkflow world_context_fails env_openai ''test'')
       = [MemoriesRetrieve ''test'', ConsoleError, WorkflowEnd]"
proof -
  have h2: "memories_retrieve world_context_fails ''test'' = Inl (PlainErr ''network down'')"
    by (simp add: world_context_fails_def world_of_def)
  have kw: "key_warning env_openai = []" by code_simp
  from context_failure_is_fatal [OF env_openai_key h2]
  show ?thesis using env_openai_key h2 kw by simp
qed

text \<open>
  C5. With a credential configured, if the context collection succeeds and the
  real-time analysis fails, the first five recorded steps are: context collection ok,
  \<^verbatim>\<open>analyze_realtime_data\<close> error, and \<^verbatim>\<open>generate_predictions\<close>,
  \<^verbatim>\<open>generate_recommendations\<close> and \<^verbatim>\<open>generate_public_alerts\<close> skipped with code
  \<^verbatim>\<open>DEPENDENCY_FAILED\<close>; and the conversational step still runs: it issues its reasoning
  call, with null for each of the four absent outputs. In the scenario of the claim,
  where the analysis is the failure and the conversational call returns, the step is
  recorded ok as the sixth entry and the invocation completes with a success envelope
  that carries the six recorded steps.
\<close>

theorem analysis_failure_degrades:
  assumes key: "truthy_str (LANGBASE_API_KEY pe)"
    and mem: "memories_retrieve w input = Inr mems"
    and fail: "fst (analyze_realtime_data_run w pe input mems) = Inl e"
  shows "map step_summary (take 5 (steps_of (healEyeWorkflow w pe input))) =
           [(''collect_context_data'', Ok, None),
            (''analyze_realtime_data'', Error,
               map_option ej_code (error_of (errorEnvelope e :: (unit, unit) envelope))),
            (''generate_predictions'', Skipped, Some ''DEPENDENCY_FAILED''),
            (''generate_recommendations'', Skipped, Some ''DEPENDENCY_FAILED''),
            (''generate_public_alerts'', Skipped, Some ''DEPENDENCY_FAILED'')]
         \<and> AgentRun RunConv (model pe) (apiKey pe) [None, None, None, None] [UserMsg input]
               \<in> set (trace_of (healEyeWorkflow w pe input))
         \<and> (\<forall>r. site_outcome w pe RunConv = Inr r \<longrightarrow>
               map step_summary (steps_of (healEyeWorkflow w pe input)) =
                 [(''collect_context_data'', Ok, None),
            (''analyze_realtime_data'', Error,
               map_option ej_code (error_of (errorEnvelope e :: (unit, unit) envelope))),
            (''generate_predictions'', Skipped, Some ''DEPENDENCY_FAILED''),
            (''generate_recommendations'', Skipped, Some ''DEPENDENCY_FAILED''),
            (''generate_public_alerts'', Skipped, Some ''DEPENDENCY_FAILED''),
            (''generate_conversational_response'', Ok, None)]
               \<and> completion_of (healEyeWorkflow w pe input) =
                   Returned (Success
                     \<lparr>conversational_response = resp_output r,
                      detailed_analysis = \<lparr>data_analysis = None, predictions = None,
                                           da_recommendations = None, public_alerts = None\<rparr>,
                      timestamp = now w, confidence_level = ''High'', system_status = ''Active''\<rparr>
                     \<lparr>steps = steps_of (healEyeWorkflow w pe input)\<rparr>))"
proof -
  from try_block_analysis_fails [OF mem fail]
  obtain tr rest where tb: "try_block w pe input =
     (case site_outcome w pe RunConv of
        Inr r \<Rightarrow>
          (None,
           \<lparr>stepMeta =
              [step_ok ''collect_context_data'' (Some (length mems)),
               step_error ''analyze_realtime_data'' e,
               step_skipped ''generate_predictions'' ''Skipped due to dataAnalysis error'',
               step_skipped ''generate_recommendations'' ''Skipped due to prediction error'',
               step_skipped ''generate_public_alerts'' ''Skipped due to recommendations error'',
               step_ok ''generate_conversational_response'' None],
            trace = MemoriesRetrieve input # tr @
                      AgentRun RunConv (model pe) (apiKey pe) [None, None, None, None] [UserMsg input] # rest,
            contextData = mems, dataAnalysis = None, prediction = None, recommendations = None,
            publicAlerts = None, conversationalResponse = resp_output r\<rparr>)
      | Inl e' \<Rightarrow>
          (Some e',
           \<lparr>stepMeta =
              [step_ok ''collect_context_data'' (Some (length mems)),
               step_error ''analyze_realtime_data'' e,
               step_skipped ''generate_predictions'' ''Skipped due to dataAnalysis error'',
               step_skipped ''generate_recommendations'' ''Skipped due to prediction error'',
               step_skipped ''generate_public_alerts'' ''Skipped due to recommendations error''],
            trace = MemoriesRetrieve input # tr @
                      AgentRun RunConv (model pe) (apiKey pe) [None, None, None, None] [UserMsg input] # rest,
            contextData = mems, dataAnalysis = None, prediction = None, recommendations = None,
            publicAlerts = None, conversationalResponse = None\<rparr>))"
    by blast
  show ?thesis
    by (cases "site_outcome w pe RunConv")
       (simp_all add: healEyeWorkflow_with_key [OF key] tb completion_of_def steps_of_def
          trace_of_def finalResult_def successEnvelope_def step_summary_def step_ok_def
          step_error_def step_skipped_def)
qed

theorem analysis_failure_degrades_witness:
  "truthy_str (LANGBASE_API_KEY env_openai)
   \<and> memories_retrieve world_analysis_fails ''test'' = Inr [\<lparr>mem_text = ''record''\<rparr>]
   \<and> fst (analyze_realtime_data_run world_analysis_fails env_openai ''test'' [\<lparr>mem_text = ''record''\<rparr>])
       = Inl (PlainErr ''boom'')
   \<and> site_outcome world_analysis_fails env_openai RunConv = Inr ok_response
   \<and> map step_summary (steps_of (healEyeWorkflow world_analysis_fails env_openai ''test'')) =
           [(''collect_context_data'', Ok, None),
            (''analyze_realtime_data'', Error, Some ''UNEXPECTED_ERROR''),
            (''generate_predictions'', Skipped, Some ''DEPENDENCY_FAILED''),
            (''generate_recommendations'', Skipped, Some ''DEPENDENCY_FAILED''),
            (''generate_public_alerts'', Skipped, Some ''DEPENDENCY_FAILED''),
            (''generate_conversational_response'', Ok, None)]
   \<and> completion_of (healEyeWorkflow world_analysis_fails env_openai ''test'') =
       Returned (Success
         \<lparr>conversational_response = Some ''text'',
          detailed_analysis = \<lparr>data_analysis = None, predictions = None,
                               da_recommendations = None, public_alerts = None\<rparr>,
          timestamp = ''2025-01-01T00:00:00.000Z'', confidence_level = ''High'',
          system_status = ''Active''\<rparr>
         \<lparr>steps = steps_of (healEyeWorkflow world_analysis_fails env_openai ''test'')\<rparr>)"
proof -
  have h2: "memories_retrieve world_analysis_fails ''test'' = Inr [\<lparr>mem_text = ''record''\<rparr>]"
    by (simp add: world_analysis_fails_def world_of_def)
  have h3: "fst (analyze_realtime_data_run world_analysis_fails env_openai ''test'' [\<lparr>mem_text = ''record''\<rparr>])
              = Inl (PlainErr ''boom'')"
    by code_simp
  have h4: "site_outcome world_analysis_fails env_openai RunConv = Inr ok_response"
    by code_simp
  have nw: "now world_analysis_fails = ''2025-01-01T00:00:00.000Z''"
    by (simp add: world_analysis_fails_def world_of_def)
  from analysis_failure_degrades [OF env_openai_key h2 h3]
  show ?thesis using env_openai_key h2 h3 h4 by (simp add: nw ok_response_def)
qed

text \<open>
  C6, as the code has it. Every invocation that returns a success envelope has recorded
  exactly six steps, one per pipeline step in execution order, also when steps were
  skipped, and the meta of the envelope holds them.
\<close>

theorem success_has_six_steps:
  assumes "completion_of (healEyeWorkflow w pe input) = Returned (Success d m)"
  shows "steps m = steps_of (healEyeWorkflow w pe input)
         \<and> map sr_id (steps m) = step_ids \<and> length (steps m) = 6"
proof -
  have key: "truthy_str (LANGBASE_API_KEY pe)"
    using assms by (auto simp: healEyeWorkflow_def completion_of_def split: if_splits)
  obtain x s where tb: "try_block w pe input = (x, s)" by (cases "try_block w pe input")
  have x: "x = None"
  proof (cases x)
    case None then show ?thesis .
  next
    case (Some err)
    obtain ej where "(errorEnvelope err :: workflow_envelope) = Failure ej None"
      using errorEnvelope_Failure by blast
    with assms Some tb show ?thesis
      by (simp add: healEyeWorkflow_with_key [OF key] completion_of_def)
  qed
  have ids: "map sr_id (stepMeta s) = step_ids"
    using try_block_None_ids tb x by blast
  have m: "steps m = stepMeta s" and st: "steps_of (healEyeWorkflow w pe input) = stepMeta s"
    using assms tb x
    by (auto simp: healEyeWorkflow_with_key [OF key] completion_of_def steps_of_def
        finalResult_def successEnvelope_def)
  have "length (stepMeta s) = length (map sr_id (stepMeta s))" by simp
  also have "\<dots> = 6" unfolding ids by (simp add: step_ids_def)
  finally show ?thesis using m st ids by simp
qed

theorem success_has_six_steps_witness:
  "completion_of (healEyeWorkflow world_all_ok env_openai ''test'') =
     Returned (Success
       \<lparr>conversational_response = Some ''text'',
        detailed_analysis = \<lparr>data_analysis = Some ''analysis'', predictions = Some ''text'',
                             da_recommendations = Some ''text'', public_alerts = Some ''text''\<rparr>,
        timestamp = ''2025-01-01T00:00:00.000Z'', confidence_level = ''High'',
        system_status = ''Active''\<rparr>
       \<lparr>steps = steps_of (healEyeWorkflow world_all_ok env_openai ''test'')\<rparr>)
   \<and> map sr_id (steps_of (healEyeWorkflow world_all_ok env_openai ''test'')) = step_ids
   \<and> length (steps_of (healEyeWorkflow world_all_ok env_openai ''test'')) = 6"
proof -
  have h: "completion_of (healEyeWorkflow world_all_ok env_openai ''test'') =
     Returned (Success
       \<lparr>conversational_response = Some ''text'',
        detailed_analysis = \<lparr>data_analysis = Some ''analysis'', predictions = Some ''text'',
                             da_recommendations = Some ''text'', public_alerts = Some ''text''\<rparr>,
        timestamp = ''2025-01-01T00:00:00.000Z'', confidence_level = ''High'',
        system_status = ''Active''\<rparr>
       \<lparr>steps = steps_of (healEyeWorkflow world_all_ok env_openai ''test'')\<rparr>)"
    by code_simp
  from success_has_six_steps [OF h] show ?thesis using h by simp
qed

text \<open>
  C6 as stated fails: when the context collection fails, one step is recorded.
\<close>

theorem six_steps_counterexample:
  "truthy_str (LANGBASE_API_KEY env_openai)
   \<and> length (steps_of (healEyeWorkflow world_context_fails env_openai ''test'')) = 1"
  by code_simp

text \<open>
  C7 at the failing input. With \<^verbatim>\<open>LANGBASE_API_KEY\<close> unset, \<^verbatim>\<open>healEyeWorkflow\<close> throws a
  plain \<^verbatim>\<open>Error\<close> before its \<^verbatim>\<open>try\<close>: the invocation ends with that exception, not
  with an envelope, and \<^verbatim>\<open>errorEnvelope\<close> would give it the code \<^verbatim>\<open>UNEXPECTED_ERROR\<close>.
  No step is recorded and there is no effect, so no network call.
\<close>

theorem missing_credential_throws:
  "healEyeWorkflow w env_no_credential input =
     (Threw (PlainErr ''LANGBASE_API_KEY missing. Set it in .env and restart the process.''), [], [])"
  by (simp add: healEyeWorkflow_def env_no_credential_def truthy_str_def)

text \<open>
  C9. The provider session is created by \<^verbatim>\<open>langbase.workflow()\<close>, after the credential
  guard and right before the \<^verbatim>\<open>try\<close>: an invocation has a session exactly when the
  credential is configured. Every such invocation leaves through the \<^verbatim>\<open>try\<close> block,
  whose \<^verbatim>\<open>catch\<close> turns every exception into an error envelope and whose \<^verbatim>\<open>finally\<close>
  runs \<^verbatim>\<open>workflow.end()\<close>: it returns an envelope, and \<^verbatim>\<open>workflow.end()\<close> has happened
  exactly once, as the last effect. So no invocation ends with its session
  unreleased.
\<close>

theorem session_released:
  assumes key: "truthy_str (LANGBASE_API_KEY pe)"
  shows "\<exists>env tr. completion_of (healEyeWorkflow w pe input) = Returned env
           \<and> trace_of (healEyeWorkflow w pe input) = tr @ [WorkflowEnd]
           \<and> WorkflowEnd \<notin> set tr"
proof -
  obtain x s where tb: "try_block w pe input = (x, s)" by (cases "try_block w pe input")
  have n: "WorkflowEnd \<notin> set (trace s)" using try_block_no_end [of w pe input] tb by simp
  show ?thesis
  proof (cases x)
    case None
    have "completion_of (healEyeWorkflow w pe input) = Returned (finalResult w s)"
      and "trace_of (healEyeWorkflow w pe input) = (key_warning pe @ trace s) @ [WorkflowEnd]"
      using tb None by (simp_all add: healEyeWorkflow_with_key [OF key] completion_of_def trace_of_def)
    moreover have "WorkflowEnd \<notin> set (key_warning pe @ trace s)"
      using n key_warning_no_end by simp
    ultimately show ?thesis by blast
  next
    case (Some err)
    have "completion_of (healEyeWorkflow w pe input) = Returned (errorEnvelope err)"
      and "trace_of (healEyeWorkflow w pe input) = (key_warning pe @ trace s @ [ConsoleError]) @ [WorkflowEnd]"
      using tb Some by (simp_all add: healEyeWorkflow_with_key [OF key] completion_of_def trace_of_def)
    moreover have "WorkflowEnd \<notin> set (key_warning pe @ trace s @ [ConsoleError])"
      using n key_warning_no_end by simp
    ultimately show ?thesis by blast
  qed
qed

theorem session_released_witness:
  "truthy_str (LANGBASE_API_KEY env_openai)
   \<and> (\<exists>env tr. completion_of (healEyeWorkflow world_all_ok env_openai ''test'') = Returned env
         \<and> trace_of (healEyeWorkflow world_all_ok env_openai ''test'') = tr @ [WorkflowEnd]
         \<and> WorkflowEnd \<notin> set tr)
   \<and> (\<exists>env tr. completion_of (healEyeWorkflow world_context_fails env_openai ''test'') = Returned env
         \<and> trace_of (healEyeWorkflow world_context_fails env_openai ''test'') = tr @ [WorkflowEnd]
         \<and> WorkflowEnd \<notin> set tr)"
  using session_released [OF env_openai_key, of world_all_ok "''test''"]
    session_released [OF env_openai_key, of world_context_fails "''test''"] env_openai_key
  by blast

text \<open>
  The HTTP handler, for the same condition as in C7: with a non-empty string input and
  no credential it throws an \<^verbatim>\<open>AuthError\<close> inside its \<^verbatim>\<open>try\<close> and answers with status
  401 and a failure envelope of code \<^verbatim>\<open>AUTH_ERROR\<close>, without a network call.
\<close>

lemma handleAgentRequest_missing_credential:
  assumes "\<not> truthy_str (LANGBASE_API_KEY pe)" and "i \<noteq> []"
  shows "handleAgentRequest refused fetch pe (JStr i) =
           (Returned
              \<lparr>hr_status = 401,
               hr_body = Failure
                 \<lparr>ej_code = ''AUTH_ERROR'', ej_message = ''LANGBASE_API_KEY missing from environment'',
                  ej_details = JObj [(''expected'', JStr ''user_... or org_...'')],
                  ej_retryable = None, ej_docs = None, ej_step = JUndefined\<rparr> None\<rparr>,
            [ConsoleError])
         \<and> \<not> list_ex is_network_call (snd (handleAgentRequest refused fetch pe (JStr i)))"
  using assms
  by (simp add: handleAgentRequest_def handleAgentRequest_try_def toResponse_def new_Response_def
      AuthError_def BaseAppError_def no_options_def toJSON_def base_toJSON_def)


end
